theory Spec2Isabelle
  imports Main "HOL-Library.Word"
begin

unbundle bit_operations_syntax

section \<open>Data model (order\_app/models.py)\<close>

text \<open>
  Monetary columns are \<open>DecimalField(max_digits=10, decimal_places=2)\<close>: fixed point
  with two decimals. They are modelled as an integer count of hundredths, on which the
  sum and the product \<open>unit_price * quantity\<close> are exact. The width bound of the
  column (ten digits) is enforced by the storage engine and is not modelled.
  Timestamps that no rule reads (order date and time, created/updated stamps, history
  change time) are left out; UUID primary keys are opaque tokens, modelled as naturals.
\<close>

type_synonym money = int

record Order =
  order_id :: string
  customer_id :: string
  address_id :: int
  total_amount :: money
  status :: string

record OrderStatusHistory =
  history_order_id :: string
  history_status :: string

record OrderItem =
  order_item_id :: nat
  item_order_id :: string
  product_id :: string
  quantity :: nat
  unit_price :: money
  total_price :: money

record Payment =
  payment_id :: nat
  payment_order_id :: string
  payment_date :: "nat option"
  payment_method :: string
  transaction_id :: "string option"
  amount_paid :: "money option"
  payment_status :: string

text \<open>
  The relational store: the four tables of the application as lists of rows, and the two
  external catalog tables the raw SQL reads and writes (\<open>CUSTOMERS_CUSTOMER\<close> as the
  list of its customer ids, \<open>PRODUCT_APP_PRODUCT\<close> as a map from product id to stock).
\<close>

record store =
  orders :: "Order list"
  order_items :: "OrderItem list"
  payments :: "Payment list"
  status_history :: "OrderStatusHistory list"
  customers :: "string list"
  products :: "string \<rightharpoonup> int"

text \<open>
  Exceptions raised by the code. \<open>NonTermination\<close> is not an exception: it stands for
  an identifier-generation loop that never returns.
\<close>

datatype error =
    ValueError string
  | Http404
  | OrderNotFoundException
  | OrderItemNotFoundException
  | InvalidOrderStatusException
  | RelatedObjectDoesNotExist
  | NonTermination

text \<open>An operation returns a value or raises, and leaves a store behind either way.\<close>

type_synonym 'a result = "(error + 'a) \<times> store"

text \<open>A \<open>Response(body, status=code)\<close> whose body is one key with a text.\<close>

type_synonym response = "nat \<times> string \<times> string"

section \<open>The persistence layer\<close>

text \<open>\<open>Model.save\<close>: the row with the instance's primary key is replaced, or the
  instance is inserted as a new row.\<close>

definition upsert :: "('a \<Rightarrow> 'k) \<Rightarrow> 'a \<Rightarrow> 'a list \<Rightarrow> 'a list" where
  "upsert pk row rows =
     (if list_ex (\<lambda>r. pk r = pk row) rows
      then map (\<lambda>r. if pk r = pk row then row else r) rows
      else rows @ [row])"

text \<open>\<open>with transaction.atomic()\<close>: an exception inside the block rolls the store back
  to what it was on entry (the raw SQL runs on the same connection).\<close>

definition atomic :: "store \<Rightarrow> 'a result \<Rightarrow> 'a result" where
  "atomic db r = (case r of (Inl e, _) \<Rightarrow> (Inl e, db) | (Inr v, db') \<Rightarrow> (Inr v, db'))"

definition Order_get :: "store \<Rightarrow> string \<Rightarrow> Order option" where
  "Order_get db oid = find (\<lambda>order. order_id order = oid) (orders db)"

text \<open>The reverse one-to-one accessor \<open>order.payment\<close>, and the lookup
  \<open>Payment.objects.get(order__order_id=...)\<close>.\<close>

definition Payment_get :: "store \<Rightarrow> string \<Rightarrow> Payment option" where
  "Payment_get db oid = find (\<lambda>payment. payment_order_id payment = oid) (payments db)"

definition OrderStatusHistory_create :: "store \<Rightarrow> string \<Rightarrow> string \<Rightarrow> store" where
  "OrderStatusHistory_create db oid s =
     db\<lparr>status_history := status_history db @ [\<lparr>history_order_id = oid, history_status = s\<rparr>]\<rparr>"

section \<open>Decimal rendering and the random sources\<close>

definition digit_chars :: string where
  "digit_chars = ''0123456789''"

definition is_digit :: "char \<Rightarrow> bool" where
  "is_digit c = (c \<in> set digit_chars)"

fun str_nat :: "nat \<Rightarrow> string" where
  "str_nat n =
     (if n < 10 then [digit_chars ! n]
      else str_nat (n div 10) @ [digit_chars ! (n mod 10)])"

declare str_nat.simps [simp del]

text \<open>Python's \<open>str\<close> on an integer.\<close>

definition str_int :: "int \<Rightarrow> string" where
  "str_int i = (if i < 0 then CHR ''-'' # str_nat (nat (- i)) else str_nat (nat i))"

text \<open>\<open>random.randint(a, b)\<close>: an integer \<open>N\<close> with \<open>a \<le> N \<le> b\<close>, chosen by the
  entropy \<open>r\<close>; every value of the range is the choice of some \<open>r\<close>.\<close>

definition randint :: "int \<Rightarrow> int \<Rightarrow> nat \<Rightarrow> int" where
  "randint a b r = a + int (r mod nat (b - a + 1))"

text \<open>\<open>uuid.uuid4().int\<close>: 128 random bits in which the standard library fixes the
  variant (bits 62 and 63 become \<open>10\<close>) and the version (bits 76 to 79 become \<open>4\<close>).\<close>

definition uuid4_int :: "128 word \<Rightarrow> 128 word" where
  "uuid4_int r =
     (((r AND NOT (push_bit 48 0xc000)) OR push_bit 48 0x8000)
        AND NOT (push_bit 64 0xf000)) OR push_bit 76 4"

section \<open>Order\<close>

text \<open>\<open>generate_order_id\<close>: the \<open>while True\<close> loop; \<open>rnd i\<close> is the entropy of the
  \<open>i\<close>-th draw. The value \<open>None\<close> is the loop that never returns.\<close>

partial_function (option) generate_order_id ::
    "(nat \<Rightarrow> nat) \<Rightarrow> store \<Rightarrow> nat \<Rightarrow> string option" where
  "generate_order_id rnd db i =
     (let order_id' = str_int (randint 1000000 9999999 (rnd i))
      in if \<not> list_ex (\<lambda>order. order_id order = order_id') (orders db)
         then Some order_id'
         else generate_order_id rnd db (Suc i))"

text \<open>\<open>Order.save\<close>: the customer id is counted in the customer table first.\<close>

definition Order_save :: "store \<Rightarrow> Order \<Rightarrow> Order result" where
  "Order_save db self =
     (if count_list (customers db) (customer_id self) = 0
      then (Inl (ValueError ''Invalid customer ID''), db)
      else (Inr self, db\<lparr>orders := upsert order_id self (orders db)\<rparr>))"

text \<open>\<open>self.order_items\<close>, the related manager: the item rows whose foreign key is the order.\<close>

definition Order_order_items :: "store \<Rightarrow> Order \<Rightarrow> OrderItem list" where
  "Order_order_items db self =
     filter (\<lambda>item. item_order_id item = order_id self) (order_items db)"

text \<open>\<open>aggregate(total=Sum("total_price"))["total"]\<close>: SQL's sum over no rows is NULL.\<close>

definition aggregate_Sum_total_price :: "OrderItem list \<Rightarrow> money option" where
  "aggregate_Sum_total_price rows =
     (if rows = [] then None else Some (sum_list (map total_price rows)))"

text \<open>\<open>x or 0.00\<close>: a missing or zero \<open>x\<close> is falsy.\<close>

definition or_zero :: "money option \<Rightarrow> money" where
  "or_zero x = (case x of None \<Rightarrow> 0 | Some v \<Rightarrow> if v = 0 then 0 else v)"

definition Order_update_total_amount :: "store \<Rightarrow> Order \<Rightarrow> Order result" where
  "Order_update_total_amount db self =
     Order_save db
       (self\<lparr>total_amount := or_zero (aggregate_Sum_total_price (Order_order_items db self))\<rparr>)"

section \<open>OrderItem\<close>

text \<open>The raw \<open>UPDATE ... SET STOCK = STOCK - q WHERE PRODUCT_ID = pid\<close>. It names the
  product table without quotes; it is taken to be the table the stock was read from, as on
  an engine that folds unquoted names to upper case.\<close>

definition update_stock :: "store \<Rightarrow> string \<Rightarrow> nat \<Rightarrow> store" where
  "update_stock db pid q =
     (case products db pid of
        None \<Rightarrow> db
      | Some stock \<Rightarrow> db\<lparr>products := (products db)(pid \<mapsto> stock - int q)\<rparr>)"

text \<open>\<open>OrderItem.save\<close>. \<open>order\<close> is \<open>self.order\<close>, the related instance the item holds;
  the foreign key column written is its primary key. The updated instances are returned
  with the store.\<close>

definition OrderItem_save :: "store \<Rightarrow> OrderItem \<Rightarrow> Order \<Rightarrow> (OrderItem \<times> Order) result" where
  "OrderItem_save db self order =
     (case products db (product_id self) of
        None \<Rightarrow> (Inl (ValueError ''Invalid product ID''), db)
      | Some available_stock \<Rightarrow>
          if available_stock < int (quantity self)
          then (Inl (ValueError ''Insufficient stock for product''), db)
          else
            let self1 = self\<lparr>item_order_id := order_id order,
                             total_price := unit_price self * int (quantity self)\<rparr>;
                db1 = db\<lparr>order_items := upsert order_item_id self1 (order_items db)\<rparr>
            in (case Order_update_total_amount db1 order of
                  (Inl e, db2) \<Rightarrow> (Inl e, db2)
                | (Inr order1, db2) \<Rightarrow>
                    (Inr (self1, order1), update_stock db2 (product_id self1) (quantity self1))))"

section \<open>Payment\<close>

text \<open>\<open>Payment.generate_transaction_id\<close>: the first twelve characters of the decimal
  rendering of a fresh UUID, redrawn while a payment row carries them.\<close>

partial_function (option) Payment_generate_transaction_id ::
    "(nat \<Rightarrow> 128 word) \<Rightarrow> store \<Rightarrow> nat \<Rightarrow> string option" where
  "Payment_generate_transaction_id rnd db i =
     (let transaction_id' = take 12 (str_nat (unat (uuid4_int (rnd i))))
      in if \<not> list_ex (\<lambda>payment. transaction_id payment = Some transaction_id') (payments db)
         then Some transaction_id'
         else Payment_generate_transaction_id rnd db (Suc i))"

text \<open>\<open>not self.transaction_id\<close>: no value, or the empty string.\<close>

definition unassigned :: "string option \<Rightarrow> bool" where
  "unassigned t = (t = None \<or> t = Some [])"

text \<open>\<open>Payment.save\<close>; \<open>now\<close> is the clock. \<open>self.order\<close> is fetched through the
  foreign key when \<open>amount_paid\<close> is set.\<close>

definition Payment_save :: "(nat \<Rightarrow> 128 word) \<Rightarrow> nat \<Rightarrow> store \<Rightarrow> Payment \<Rightarrow> Payment result" where
  "Payment_save rnd now db self =
     (if payment_status self = ''success'' then
        (case (if unassigned (transaction_id self)
               then Payment_generate_transaction_id rnd db 0
               else transaction_id self) of
           None \<Rightarrow> (Inl NonTermination, db)
         | Some tid \<Rightarrow>
             (case Order_get db (payment_order_id self) of
                None \<Rightarrow> (Inl RelatedObjectDoesNotExist, db)
              | Some order \<Rightarrow>
                  let self1 = self\<lparr>transaction_id := Some tid, payment_date := Some now,
                                   amount_paid := Some (total_amount order)\<rparr>
                  in (Inr self1, db\<lparr>payments := upsert payment_id self1 (payments db)\<rparr>)))
      else
        let self1 = self\<lparr>transaction_id := None, payment_date := None, amount_paid := None\<rparr>
        in (Inr self1, db\<lparr>payments := upsert payment_id self1 (payments db)\<rparr>))"

section \<open>Views (order\_app/views.py)\<close>

definition STATUS_CHOICES :: "(string \<times> string) list" where
  "STATUS_CHOICES =
     [(''pending'', ''Pending''), (''shipped'', ''Shipped''), (''delivered'', ''Delivered'')]"

text \<open>The condition \<open>new_status == "delivered" and order.payment.payment_status != "success"\<close>:
  the payment is only looked up for \<open>delivered\<close>, and the lookup raises when the order
  has none.\<close>

definition delivered_without_payment :: "store \<Rightarrow> Order \<Rightarrow> string \<Rightarrow> error + bool" where
  "delivered_without_payment db order new_status =
     (if new_status = ''delivered'' then
        (case Payment_get db (order_id order) of
           None \<Rightarrow> Inl RelatedObjectDoesNotExist
         | Some payment \<Rightarrow> Inr (payment_status payment \<noteq> ''success''))
      else Inr False)"

text \<open>\<open>OrderViewSet.update_status\<close>; \<open>new_status\<close> is \<open>request.data.get("status")\<close>.\<close>

definition OrderViewSet_update_status :: "store \<Rightarrow> string \<Rightarrow> string option \<Rightarrow> response result" where
  "OrderViewSet_update_status db oid new_status =
     (case Order_get db oid of
        None \<Rightarrow> (Inl OrderNotFoundException, db)
      | Some order \<Rightarrow>
          (case new_status of
             None \<Rightarrow> (Inl InvalidOrderStatusException, db)
           | Some s \<Rightarrow>
               if s \<notin> set (map fst STATUS_CHOICES) then (Inl InvalidOrderStatusException, db)
               else
                 (case delivered_without_payment db order s of
                    Inl e \<Rightarrow> (Inl e, db)
                  | Inr True \<Rightarrow>
                      (Inr (400, ''error'',
                            ''Order cannot be marked as delivered without successful payment''), db)
                  | Inr False \<Rightarrow>
                      (case Order_save db (order\<lparr>status := s\<rparr>) of
                         (Inl e, db1) \<Rightarrow> (Inl e, db1)
                       | (Inr order1, db1) \<Rightarrow>
                           (Inr (200, ''message'',
                                 ''Order '' @ order_id order1 @ '' updated to '' @ s),
                            OrderStatusHistory_create db1 (order_id order1) s)))))"

text \<open>The loop of \<open>OrderItemViewSet.create\<close>: every item is saved with the same order
  instance, and the first exception ends the loop.\<close>

fun create_items :: "store \<Rightarrow> Order \<Rightarrow> OrderItem list \<Rightarrow> (OrderItem list) result" where
  "create_items db order [] = (Inr [], db)"
| "create_items db order (item_data # rest) =
     (case OrderItem_save db item_data order of
        (Inl e, db1) \<Rightarrow> (Inl e, db1)
      | (Inr (item, order1), db1) \<Rightarrow>
          (case create_items db1 order1 rest of
             (Inl e, db2) \<Rightarrow> (Inl e, db2)
           | (Inr created_items, db2) \<Rightarrow> (Inr (item # created_items), db2)))"

text \<open>\<open>OrderItemViewSet.create\<close>; \<open>data\<close> is the request body as a list of items (a
  single item is a list of one), each already accepted by the serializer and carrying the
  primary key its \<open>uuid4\<close> default drew. The serializer's own validation errors and
  primary key collisions are not modelled.\<close>

definition OrderItemViewSet_create ::
    "store \<Rightarrow> string \<Rightarrow> OrderItem list \<Rightarrow> (nat \<times> OrderItem list) result" where
  "OrderItemViewSet_create db oid data =
     (case Order_get db oid of
        None \<Rightarrow> (Inl Http404, db)
      | Some order \<Rightarrow>
          atomic db
            (case create_items db order data of
               (Inl e, db1) \<Rightarrow> (Inl e, db1)
             | (Inr created_items, db1) \<Rightarrow> (Inr (201, created_items), db1)))"

text \<open>\<open>OrderItemViewSet.get_queryset\<close>; \<open>kw\<close> is \<open>self.kwargs.get("order_id")\<close>, and an
  empty string is falsy like a missing one.\<close>

definition OrderItemViewSet_get_queryset :: "store \<Rightarrow> string option \<Rightarrow> OrderItem list" where
  "OrderItemViewSet_get_queryset db kw =
     (case kw of
        None \<Rightarrow> order_items db
      | Some oid \<Rightarrow>
          if oid = [] then order_items db
          else filter (\<lambda>item. item_order_id item = oid) (order_items db))"

text \<open>\<open>OrderItemViewSet.destroy\<close>; \<open>pk\<close> is the item's primary key from the URL.\<close>

definition OrderItemViewSet_destroy :: "store \<Rightarrow> string option \<Rightarrow> nat \<Rightarrow> response result" where
  "OrderItemViewSet_destroy db kw pk =
     (case find (\<lambda>item. order_item_id item = pk) (OrderItemViewSet_get_queryset db kw) of
        None \<Rightarrow> (Inl OrderItemNotFoundException, db)
      | Some order_item \<Rightarrow>
          (case Order_get db (item_order_id order_item) of
             None \<Rightarrow> (Inl RelatedObjectDoesNotExist, db)
           | Some order \<Rightarrow>
               atomic db
                 (let db1 = db\<lparr>order_items :=
                               filter (\<lambda>item. order_item_id item \<noteq> order_item_id order_item)
                                 (order_items db)\<rparr>
                  in (case Order_update_total_amount db1 order of
                        (Inl e, db2) \<Rightarrow> (Inl e, db2)
                      | (Inr order1, db2) \<Rightarrow>
                          (Inr (204, ''message'', ''Order item deleted''), db2)))))"

text \<open>\<open>PaymentViewSet.confirm_payment\<close>. No transaction scope is opened here.\<close>

definition PaymentViewSet_confirm_payment ::
    "(nat \<Rightarrow> 128 word) \<Rightarrow> nat \<Rightarrow> store \<Rightarrow> string \<Rightarrow> response result" where
  "PaymentViewSet_confirm_payment rnd now db oid =
     (case Payment_get db oid of
        None \<Rightarrow> (Inl Http404, db)
      | Some payment \<Rightarrow>
          if payment_status payment = ''success''
          then (Inr (400, ''message'', ''Payment already marked as successful''), db)
          else
            (case Payment_save rnd now db (payment\<lparr>payment_status := ''success''\<rparr>) of
               (Inl e, db1) \<Rightarrow> (Inl e, db1)
             | (Inr payment1, db1) \<Rightarrow>
                 (case Order_get db1 (payment_order_id payment1) of
                    None \<Rightarrow> (Inl RelatedObjectDoesNotExist, db1)
                  | Some order \<Rightarrow>
                      (case Order_save db1 (order\<lparr>status := ''shipped''\<rparr>) of
                         (Inl e, db2) \<Rightarrow> (Inl e, db2)
                       | (Inr order1, db2) \<Rightarrow>
                           (Inr (200, ''message'', ''Payment confirmed successfully''),
                            OrderStatusHistory_create db2 (order_id order1) ''shipped'')))))"

section \<open>The consistency property of totals\<close>

text \<open>The sum of \<open>total_price\<close> over the live item rows of an order, and the
  statement that the stored order carries it as \<open>total_amount\<close>.\<close>

definition live_total :: "store \<Rightarrow> string \<Rightarrow> money" where
  "live_total db oid =
     sum_list (map total_price (filter (\<lambda>item. item_order_id item = oid) (order_items db)))"

definition total_consistent :: "store \<Rightarrow> string \<Rightarrow> bool" where
  "total_consistent db oid =
     (case Order_get db oid of None \<Rightarrow> False | Some order \<Rightarrow> total_amount order = live_total db oid)"

section \<open>Example stores\<close>

text \<open>
  The scenario of the specification: an order of an existing customer, a product with
  stock 10, an item of quantity 3 at unit price 2.50 and a pending payment, followed by the
  stores that adding the item, removing it and confirming the payment lead to. The stores
  named \<open>nocust\<close> are the same stores once the customer's row has gone from the
  external customer table, which no foreign key of the application protects.
\<close>

definition ex_order :: Order where
  "ex_order =
     \<lparr>order_id = ''1000000'', customer_id = ''c1'', address_id = 1, total_amount = 0,
      status = ''pending''\<rparr>"

definition ex_db :: store where
  "ex_db =
     \<lparr>orders = [ex_order], order_items = [], payments = [],
      status_history = [\<lparr>history_order_id = ''1000000'', history_status = ''pending''\<rparr>],
      customers = [''c1''], products = [''p1'' \<mapsto> 10]\<rparr>"

definition ex_payment :: Payment where
  "ex_payment =
     \<lparr>payment_id = 1, payment_order_id = ''1000000'', payment_date = None,
      payment_method = ''upi'', transaction_id = None, amount_paid = None,
      payment_status = ''pending''\<rparr>"

definition ex_item :: OrderItem where
  "ex_item =
     \<lparr>order_item_id = 1, item_order_id = ''1000000'', product_id = ''p1'', quantity = 3,
      unit_price = 250, total_price = 0\<rparr>"

definition ex_db0 :: store where
  "ex_db0 = ex_db\<lparr>payments := [ex_payment]\<rparr>"

definition ex_db_added :: store where
  "ex_db_added =
     ex_db0\<lparr>orders := [ex_order\<lparr>total_amount := 750\<rparr>],
            order_items := [ex_item\<lparr>total_price := 750\<rparr>],
            products := [''p1'' \<mapsto> 7]\<rparr>"

definition ex_db_removed :: store where
  "ex_db_removed = ex_db_added\<lparr>orders := [ex_order], order_items := []\<rparr>"

definition ex_db_nocust :: store where
  "ex_db_nocust = ex_db_added\<lparr>customers := []\<rparr>"

definition ex_payment_paid :: Payment where
  "ex_payment_paid =
     ex_payment\<lparr>transaction_id := Some ''302240678275'', payment_date := Some 5,
                amount_paid := Some 750, payment_status := ''success''\<rparr>"

definition ex_db_paid :: store where
  "ex_db_paid =
     ex_db_added\<lparr>orders := [ex_order\<lparr>total_amount := 750, status := ''shipped''\<rparr>],
                 payments := [ex_payment_paid],
                 status_history := status_history ex_db_added @
                   [\<lparr>history_order_id = ''1000000'', history_status = ''shipped''\<rparr>]\<rparr>"

definition ex_db_paid_nocust :: store where
  "ex_db_paid_nocust = ex_db_paid\<lparr>customers := []\<rparr>"

definition ex_db_nopayment :: store where
  "ex_db_nopayment = ex_db_added\<lparr>payments := []\<rparr>"

definition ex_db_paid_removed :: store where
  "ex_db_paid_removed =
     ex_db_paid\<lparr>orders := [ex_order\<lparr>status := ''shipped''\<rparr>], order_items := []\<rparr>"

definition ex_db0_nocust :: store where
  "ex_db0_nocust = ex_db0\<lparr>customers := []\<rparr>"

lemmas ex_defs = ex_order_def ex_db_def ex_payment_def ex_item_def ex_db0_def ex_db_added_def
  ex_db_removed_def ex_db_nocust_def ex_payment_paid_def ex_db_paid_def ex_db_paid_nocust_def
  ex_db_nopayment_def ex_db_paid_removed_def ex_db0_nocust_def

lemmas model_defs = OrderItem_save_def Order_update_total_amount_def Order_save_def
  Order_order_items_def aggregate_Sum_total_price_def or_zero_def update_stock_def upsert_def
  Order_get_def Payment_get_def atomic_def OrderItemViewSet_create_def
  OrderItemViewSet_destroy_def OrderItemViewSet_get_queryset_def
  OrderViewSet_update_status_def delivered_without_payment_def STATUS_CHOICES_def
  OrderStatusHistory_create_def

section \<open>Decimal strings and identifier generation\<close>

lemma digit_chars_nth: "d < 10 \<Longrightarrow> is_digit (digit_chars ! d)"
  unfolding is_digit_def by (rule nth_mem) (simp add: digit_chars_def)

lemma str_nat_digits: "list_all is_digit (str_nat n)"
proof (induction n rule: str_nat.induct)
  case (1 n)
  show ?case
  proof (cases "n < 10")
    case True
    then show ?thesis by (subst str_nat.simps) (simp add: digit_chars_nth)
  next
    case False
    with 1 show ?thesis by (subst str_nat.simps) (simp add: digit_chars_nth)
  qed
qed

lemma str_nat_length_lower: "10 ^ k \<le> n \<Longrightarrow> k < length (str_nat n)"
proof (induction k arbitrary: n)
  case 0
  then show ?case by (subst str_nat.simps) simp
next
  case (Suc k)
  then have "10 ^ k \<le> n div 10" by (simp add: less_eq_div_iff_mult_less_eq)
  from Suc.IH [OF this] have "k < length (str_nat (n div 10))" .
  moreover from Suc.prems have "\<not> n < 10"
    by (metis One_nat_def le_trans not_less one_le_numeral one_le_power power_Suc mult.right_neutral mult_le_mono2)
  ultimately show ?case by (subst str_nat.simps) simp
qed

lemma str_nat_length_upper: "n < 10 ^ Suc k \<Longrightarrow> length (str_nat n) \<le> Suc k"
proof (induction k arbitrary: n)
  case 0
  then show ?case by (subst str_nat.simps) simp
next
  case (Suc k)
  then have "n div 10 < 10 ^ Suc k" by (simp add: less_mult_imp_div_less mult.commute)
  from Suc.IH [OF this] show ?case by (subst str_nat.simps) simp
qed

lemma randint_range: "a \<le> b \<Longrightarrow> a \<le> randint a b r \<and> randint a b r \<le> b"
proof -
  assume ab: "a \<le> b"
  then have pos: "0 < nat (b - a + 1)" by simp
  have "r mod nat (b - a + 1) < nat (b - a + 1)" using pos by (rule mod_less_divisor)
  then have "int (r mod nat (b - a + 1)) < b - a + 1" using ab by linarith
  then show ?thesis unfolding randint_def by simp
qed

lemma order_id_draw_shape:
  assumes "1000000 \<le> n" "n \<le> (9999999::int)"
  shows "length (str_int n) = 7 \<and> list_all is_digit (str_int n)"
proof -
  have nn: "\<not> n < 0" using assms by simp
  have "10 ^ 6 \<le> nat n" using assms by simp
  then have lo: "6 < length (str_nat (nat n))" by (rule str_nat_length_lower)
  have "nat n < 10 ^ Suc 6" using assms by simp
  then have hi: "length (str_nat (nat n)) \<le> Suc 6" by (rule str_nat_length_upper)
  from lo hi nn show ?thesis by (simp add: str_int_def str_nat_digits)
qed

text \<open>
  C9. Every identifier \<open>generate_order_id\<close> returns is a string of seven decimal
  digits, the rendering of a number between 1000000 and 9999999, and no order row of the
  store carries it when it is returned.
\<close>

theorem generate_order_id_returned:
  assumes "generate_order_id rnd db i = Some oid"
  shows "length oid = 7 \<and> list_all is_digit oid \<and>
     (\<exists>n. 1000000 \<le> n \<and> n \<le> 9999999 \<and> oid = str_int n) \<and>
     \<not> list_ex (\<lambda>order. order_id order = oid) (orders db)"
proof -
  define P where "P = (\<lambda>(rnd :: nat \<Rightarrow> nat) (db :: store) (i :: nat) oid.
     length oid = 7 \<and> list_all is_digit oid \<and>
     (\<exists>n. 1000000 \<le> n \<and> n \<le> 9999999 \<and> oid = str_int n) \<and>
     \<not> list_ex (\<lambda>order. order_id order = oid) (orders db))"
  have "P rnd db i oid"
  proof (rule generate_order_id.raw_induct [where P = P, OF _ assms])
    fix gen rnd db i oid
    assume IH: "\<And>rnd db i oid. gen rnd db i = Some oid \<Longrightarrow> P rnd db i oid"
    assume step: "(let order_id' = str_int (randint 1000000 9999999 (rnd i))
        in if \<not> list_ex (\<lambda>order. order_id order = order_id') (orders db)
           then Some order_id'
           else gen rnd db (Suc i)) = Some oid"
    let ?n = "randint 1000000 9999999 (rnd i)"
    have range: "1000000 \<le> ?n \<and> ?n \<le> 9999999" by (rule randint_range) simp
    show "P rnd db i oid"
    proof (cases "list_ex (\<lambda>order. order_id order = str_int ?n) (orders db)")
      case True
      with step have "gen rnd db (Suc i) = Some oid" by (simp add: Let_def)
      then have "P rnd db (Suc i) oid" by (rule IH)
      then show ?thesis unfolding P_def .
    next
      case False
      with step have oid: "oid = str_int ?n" by (simp add: Let_def)
      from range have "length (str_int ?n) = 7 \<and> list_all is_digit (str_int ?n)"
        by (intro order_id_draw_shape) simp_all
      with oid False range show ?thesis unfolding P_def by blast
    qed
  qed
  then show ?thesis unfolding P_def .
qed

lemma generate_order_id_terminates:
  "\<not> list_ex (\<lambda>order. order_id order = str_int (randint 1000000 9999999 (rnd (i + k)))) (orders db)
   \<Longrightarrow> \<exists>oid. generate_order_id rnd db i = Some oid"
proof (induction k arbitrary: i)
  case 0
  then show ?case by (subst generate_order_id.simps) (simp add: Let_def)
next
  case (Suc k)
  then have "\<exists>oid. generate_order_id rnd db (Suc i) = Some oid" by simp
  then show ?case by (subst generate_order_id.simps) (simp add: Let_def)
qed

lemma ex_gen: "generate_order_id (\<lambda>i. i) ex_db 0 = Some ''1000001''"
  apply (subst generate_order_id.simps)
  apply (subst generate_order_id.simps)
  apply (simp add: Let_def ex_db_def ex_order_def randint_def str_int_def str_nat.simps digit_chars_def)
  done

theorem generate_order_id_returned_witness:
  "generate_order_id (\<lambda>i. i) ex_db 0 = Some ''1000001'' \<and> length ''1000001'' = 7 \<and> list_all is_digit ''1000001''
   \<and> (\<exists>n. 1000000 \<le> n \<and> n \<le> 9999999 \<and> ''1000001'' = str_int n) \<and>
     \<not> list_ex (\<lambda>order. order_id order = ''1000001'') (orders ex_db)"
  using generate_order_id_returned [OF ex_gen] ex_gen by simp


section \<open>Tables, saves and totals\<close>

subsection \<open>Rows and lookups\<close>

lemma find_key: "find P rows = Some r \<Longrightarrow> P r \<and> r \<in> set rows"
  by (induction rows) (auto split: if_splits)

lemma in_set_upsert: "row \<in> set (upsert pk row rows)"
  by (auto simp: upsert_def list_ex_iff)

lemma find_upsert_same: "find (\<lambda>r. pk r = pk row) (upsert pk row rows) = Some row"
proof (cases "list_ex (\<lambda>r. pk r = pk row) rows")
  case True
  then show ?thesis unfolding upsert_def by (induction rows) auto
next
  case False
  then have "find (\<lambda>r. pk r = pk row) rows = None" by (simp add: find_None_iff list_ex_iff)
  with False show ?thesis unfolding upsert_def by (induction rows) (auto split: if_splits)
qed

lemma find_upsert_rel:
  assumes "find P rows = Some r" and "pk r = pk row" and "P row"
  shows "find P (upsert pk row rows) = Some row"
proof -
  from assms(1) have "r \<in> set rows" by (simp add: find_key)
  with assms(2) have ex: "list_ex (\<lambda>r. pk r = pk row) rows" by (auto simp: list_ex_iff)
  from assms have "find P (map (\<lambda>r. if pk r = pk row then row else r) rows) = Some row"
    by (induction rows) (auto split: if_splits)
  with ex show ?thesis by (simp add: upsert_def)
qed

lemma Order_get_id: "Order_get db oid = Some order \<Longrightarrow> order_id order = oid"
  unfolding Order_get_def by (drule find_key) simp

lemma Payment_get_id: "Payment_get db oid = Some payment \<Longrightarrow> payment_order_id payment = oid"
  unfolding Payment_get_def by (drule find_key) simp

subsection \<open>Order.save and the recomputed total\<close>

lemma or_zero_Sum: "or_zero (aggregate_Sum_total_price rows) = sum_list (map total_price rows)"
  by (simp add: or_zero_def aggregate_Sum_total_price_def)

lemma Order_save_Inr:
  assumes "Order_save db self = (Inr self', db')"
  shows "self' = self \<and> count_list (customers db) (customer_id self) \<noteq> 0
         \<and> db' = db\<lparr>orders := upsert order_id self (orders db)\<rparr>"
  using assms by (auto simp: Order_save_def split: if_splits)

lemma Order_save_Inl:
  assumes "Order_save db self = (Inl e, db')"
  shows "db' = db \<and> e = ValueError ''Invalid customer ID''
         \<and> count_list (customers db) (customer_id self) = 0"
  using assms by (auto simp: Order_save_def split: if_splits)

lemma Order_get_after_save:
  "Order_get (db\<lparr>orders := upsert order_id self (orders db)\<rparr>) (order_id self) = Some self"
  by (simp add: Order_get_def find_upsert_same)

lemma Order_update_total_amount_Inr:
  assumes "Order_update_total_amount db self = (Inr self', db')"
  shows "self' = self\<lparr>total_amount := live_total db (order_id self)\<rparr>
         \<and> count_list (customers db) (customer_id self) \<noteq> 0
         \<and> db' = db\<lparr>orders := upsert order_id self' (orders db)\<rparr>"
  using assms unfolding Order_update_total_amount_def
  by (auto dest!: Order_save_Inr simp: or_zero_Sum Order_order_items_def live_total_def)

lemma Order_update_total_amount_Inl:
  assumes "Order_update_total_amount db self = (Inl e, db')"
  shows "db' = db \<and> e = ValueError ''Invalid customer ID''
         \<and> count_list (customers db) (customer_id self) = 0"
  using assms unfolding Order_update_total_amount_def
  by (auto dest!: Order_save_Inl)

lemma Order_update_total_amount_valid:
  assumes "count_list (customers db) (customer_id self) \<noteq> 0"
  shows "Order_update_total_amount db self =
           (Inr (self\<lparr>total_amount := live_total db (order_id self)\<rparr>),
            db\<lparr>orders := upsert order_id (self\<lparr>total_amount := live_total db (order_id self)\<rparr>) (orders db)\<rparr>)"
  using assms unfolding Order_update_total_amount_def
  by (simp add: Order_save_def or_zero_Sum Order_order_items_def live_total_def)

lemma Order_update_total_amount_consistent:
  assumes "Order_update_total_amount db self = (Inr self', db')"
  shows "total_consistent db' (order_id self) \<and> order_id self' = order_id self
         \<and> order_items db' = order_items db \<and> products db' = products db
         \<and> payments db' = payments db \<and> status_history db' = status_history db"
proof -
  from Order_update_total_amount_Inr [OF assms]
  have s: "self' = self\<lparr>total_amount := live_total db (order_id self)\<rparr>"
    and d: "db' = db\<lparr>orders := upsert order_id self' (orders db)\<rparr>" by simp_all
  from s have id: "order_id self' = order_id self" by simp
  have "Order_get db' (order_id self') = Some self'"
    unfolding d by (rule Order_get_after_save)
  moreover have "live_total db' (order_id self) = live_total db (order_id self)"
    unfolding d by (simp add: live_total_def)
  ultimately have "total_consistent db' (order_id self)"
    using s id by (simp add: total_consistent_def)
  with id d show ?thesis by simp
qed

lemma update_stock_frame:
  "orders (update_stock db pid q) = orders db \<and> order_items (update_stock db pid q) = order_items db
   \<and> payments (update_stock db pid q) = payments db
   \<and> status_history (update_stock db pid q) = status_history db
   \<and> customers (update_stock db pid q) = customers db"
  by (simp add: update_stock_def split: option.splits)

lemma total_consistent_update_stock:
  "total_consistent (update_stock db pid q) oid = total_consistent db oid"
  by (simp add: total_consistent_def Order_get_def live_total_def update_stock_frame
        split: option.splits)


subsection \<open>OrderItem.save\<close>

lemma OrderItem_save_Inr:
  assumes "OrderItem_save db self order = (Inr (self', order'), db')"
  shows "\<exists>stock db2. products db (product_id self) = Some stock \<and> int (quantity self) \<le> stock
     \<and> self' = self\<lparr>item_order_id := order_id order,
                      total_price := unit_price self * int (quantity self)\<rparr>
     \<and> Order_update_total_amount
           (db\<lparr>order_items := upsert order_item_id self' (order_items db)\<rparr>) order = (Inr order', db2)
     \<and> db' = update_stock db2 (product_id self) (quantity self)"
  using assms unfolding OrderItem_save_def
  by (auto simp: Let_def split: option.splits if_splits prod.splits sum.splits)

lemma OrderItem_save_Inl:
  assumes "OrderItem_save db self order = (Inl e, db')"
  shows "orders db' = orders db \<and> products db' = products db \<and> payments db' = payments db
         \<and> status_history db' = status_history db"
  using assms unfolding OrderItem_save_def
  by (auto simp: Let_def split: option.splits if_splits prod.splits sum.splits
           dest!: Order_update_total_amount_Inl)

lemma OrderItem_save_consistent:
  assumes "OrderItem_save db self order = (Inr (self', order'), db')"
  shows "total_consistent db' (order_id order) \<and> order_id order' = order_id order"
proof -
  from OrderItem_save_Inr [OF assms] obtain stock db2 where
    upd: "Order_update_total_amount
           (db\<lparr>order_items := upsert order_item_id self' (order_items db)\<rparr>) order = (Inr order', db2)"
    and db': "db' = update_stock db2 (product_id self) (quantity self)" by blast
  from Order_update_total_amount_consistent [OF upd]
  show ?thesis unfolding db' by (simp add: total_consistent_update_stock)
qed

lemma OrderItem_save_payments: "payments (snd (OrderItem_save db self order)) = payments db"
proof (cases "OrderItem_save db self order")
  case (Pair r db')
  show ?thesis
  proof (cases r)
    case (Inl e)
    with Pair show ?thesis by (simp add: OrderItem_save_Inl)
  next
    case (Inr v)
    obtain self' order' where v: "v = (self', order')" by (cases v)
    from Pair Inr v have s: "OrderItem_save db self order = (Inr (self', order'), db')" by simp
    from OrderItem_save_Inr [OF s] obtain db2 where
      upd: "Order_update_total_amount
           (db\<lparr>order_items := upsert order_item_id self' (order_items db)\<rparr>) order = (Inr order', db2)"
      and db': "db' = update_stock db2 (product_id self) (quantity self)" by blast
    from Order_update_total_amount_consistent [OF upd] have "payments db2 = payments db" by simp
    with Pair db' show ?thesis by (simp add: update_stock_frame)
  qed
qed

subsection \<open>The item views\<close>

lemma create_items_consistent:
  "create_items db order data = (Inr created, db') \<Longrightarrow> data \<noteq> [] \<Longrightarrow>
     total_consistent db' (order_id order)"
proof (induction data arbitrary: db order created)
  case Nil
  then show ?case by simp
next
  case (Cons item_data rest)
  from Cons.prems(1) obtain item order1 db1 created1 where
    s: "OrderItem_save db item_data order = (Inr (item, order1), db1)"
    and r: "create_items db1 order1 rest = (Inr created1, db')"
    by (auto split: prod.splits sum.splits)
  from OrderItem_save_consistent [OF s]
  have c1: "total_consistent db1 (order_id order)" and id: "order_id order1 = order_id order"
    by simp_all
  show ?case
  proof (cases "rest = []")
    case True
    with r c1 show ?thesis by simp
  next
    case False
    from Cons.IH [OF r False] id show ?thesis by simp
  qed
qed

lemma create_items_payments: "payments (snd (create_items db order data)) = payments db"
proof (induction data arbitrary: db order)
  case Nil
  show ?case by simp
next
  case (Cons item_data rest)
  have p: "payments (snd (OrderItem_save db item_data order)) = payments db"
    by (rule OrderItem_save_payments)
  show ?case
  proof (cases "OrderItem_save db item_data order")
    case (Pair r db1)
    show ?thesis
    proof (cases r)
      case (Inl e)
      with Pair p show ?thesis by simp
    next
      case (Inr v)
      obtain item order1 where v: "v = (item, order1)" by (cases v)
      from Cons.IH [of db1 order1] Pair p
      have "payments (snd (create_items db1 order1 rest)) = payments db" by simp
      with Pair Inr v show ?thesis by (auto split: prod.splits sum.splits)
    qed
  qed
qed

lemma atomic_Inr: "atomic db r = (Inr v, db') \<longleftrightarrow> r = (Inr v, db')"
  by (cases r) (auto simp: atomic_def split: sum.splits)

lemma atomic_Inl: "atomic db r = (Inl e, db') \<longleftrightarrow> fst r = Inl e \<and> db' = db"
  by (cases r) (auto simp: atomic_def split: sum.splits)

lemma atomic_payments:
  "payments (snd r) = payments db \<Longrightarrow> payments (snd (atomic db r)) = payments db"
  by (cases r) (auto simp: atomic_def split: sum.splits)

lemma OrderItemViewSet_create_payments:
  "payments (snd (OrderItemViewSet_create db oid data)) = payments db"
proof (cases "Order_get db oid")
  case None
  then show ?thesis by (simp add: OrderItemViewSet_create_def)
next
  case (Some order)
  have "payments (snd (case create_items db order data of
               (Inl e, db1) \<Rightarrow> (Inl e, db1)
             | (Inr created_items, db1) \<Rightarrow> (Inr (201::nat, created_items), db1))) = payments db"
    using create_items_payments [of db order data]
    by (auto split: prod.splits sum.splits)
  then show ?thesis using Some by (simp add: OrderItemViewSet_create_def atomic_payments)
qed

lemma OrderItemViewSet_create_consistent:
  assumes "OrderItemViewSet_create db oid data = (Inr resp, db')" and "data \<noteq> []"
  shows "total_consistent db' oid"
proof -
  from assms(1) obtain order where o: "Order_get db oid = Some order"
    by (auto simp: OrderItemViewSet_create_def split: option.splits)
  with assms(1) obtain created where "create_items db order data = (Inr created, db')"
    by (auto simp: OrderItemViewSet_create_def atomic_Inr split: prod.splits sum.splits)
  from create_items_consistent [OF this assms(2)] Order_get_id [OF o] show ?thesis by simp
qed

lemma OrderItemViewSet_destroy_Inr:
  assumes "OrderItemViewSet_destroy db kw pk = (Inr resp, db')"
  shows "\<exists>order_item order order1.
     find (\<lambda>item. order_item_id item = pk) (OrderItemViewSet_get_queryset db kw) = Some order_item
     \<and> Order_get db (item_order_id order_item) = Some order
     \<and> Order_update_total_amount
         (db\<lparr>order_items := filter (\<lambda>item. order_item_id item \<noteq> pk) (order_items db)\<rparr>) order
        = (Inr order1, db')
     \<and> resp = (204, ''message'', ''Order item deleted'')"
proof -
  from assms obtain order_item where
    f: "find (\<lambda>item. order_item_id item = pk) (OrderItemViewSet_get_queryset db kw) = Some order_item"
    by (auto simp: OrderItemViewSet_destroy_def split: option.splits)
  have pk: "order_item_id order_item = pk" using find_key [OF f] by simp
  from assms f obtain order where o: "Order_get db (item_order_id order_item) = Some order"
    by (auto simp: OrderItemViewSet_destroy_def split: option.splits)
  from assms f o pk show ?thesis
    by (auto simp: OrderItemViewSet_destroy_def atomic_Inr Let_def split: prod.splits sum.splits)
qed

lemma OrderItemViewSet_destroy_frame:
  "payments (snd (OrderItemViewSet_destroy db kw pk)) = payments db
   \<and> products (snd (OrderItemViewSet_destroy db kw pk)) = products db"
proof (cases "OrderItemViewSet_destroy db kw pk")
  case (Pair r db')
  show ?thesis
  proof (cases r)
    case (Inl e)
    with Pair have "db' = db"
      by (auto simp: OrderItemViewSet_destroy_def atomic_Inl split: option.splits)
    with Pair show ?thesis by simp
  next
    case (Inr resp)
    with Pair have "OrderItemViewSet_destroy db kw pk = (Inr resp, db')" by simp
    from OrderItemViewSet_destroy_Inr [OF this] obtain order order1 where
      "Order_update_total_amount
         (db\<lparr>order_items := filter (\<lambda>item. order_item_id item \<noteq> pk) (order_items db)\<rparr>) order
        = (Inr order1, db')" by blast
    from Order_update_total_amount_consistent [OF this] Pair show ?thesis by simp
  qed
qed


subsection \<open>Orders other than the parent\<close>

lemma find_upsert_other:
  "k \<noteq> pk row \<Longrightarrow> find (\<lambda>r. pk r = k) (upsert pk row rows) = find (\<lambda>r. pk r = k) rows"
proof -
  assume k: "k \<noteq> pk row"
  then have "find (\<lambda>r. pk r = k) (map (\<lambda>r. if pk r = pk row then row else r) rows)
      = find (\<lambda>r. pk r = k) rows"
    by (induction rows) auto
  moreover from k have "find (\<lambda>r. pk r = k) (rows @ [row]) = find (\<lambda>r. pk r = k) rows"
    by (induction rows) auto
  ultimately show ?thesis by (simp add: upsert_def)
qed

lemma Order_update_total_amount_other:
  assumes "Order_update_total_amount db self = (Inr self', db')" and "oid \<noteq> order_id self"
  shows "total_consistent db' oid = total_consistent db oid"
proof -
  from Order_update_total_amount_Inr [OF assms(1)]
  have s: "order_id self' = order_id self"
    and d: "db' = db\<lparr>orders := upsert order_id self' (orders db)\<rparr>" by simp_all
  from assms(2) s have "oid \<noteq> order_id self'" by simp
  then have "Order_get db' oid = Order_get db oid"
    unfolding d by (simp add: Order_get_def find_upsert_other)
  moreover have "live_total db' oid = live_total db oid" unfolding d by (simp add: live_total_def)
  ultimately show ?thesis by (simp add: total_consistent_def split: option.splits)
qed

lemma total_consistent_items_cong:
  assumes "filter (\<lambda>item. item_order_id item = oid) items =
           filter (\<lambda>item. item_order_id item = oid) (order_items db)"
  shows "total_consistent (db\<lparr>order_items := items\<rparr>) oid = total_consistent db oid"
  using assms by (simp add: total_consistent_def live_total_def Order_get_def split: option.splits)

lemma OrderItem_save_preserves:
  assumes "OrderItem_save db self order = (Inr saved, db')"
    and "\<not> list_ex (\<lambda>item. order_item_id item = order_item_id self) (order_items db)"
    and "total_consistent db oid"
  shows "total_consistent db' oid"
proof (cases "oid = order_id order")
  case True
  obtain self' order' where "saved = (self', order')" by (cases saved)
  with assms(1) OrderItem_save_consistent True show ?thesis by blast
next
  case False
  obtain self' order' where sv: "saved = (self', order')" by (cases saved)
  from OrderItem_save_Inr [OF assms(1) [unfolded sv]] obtain db2 where
    self': "self' = self\<lparr>item_order_id := order_id order,
                      total_price := unit_price self * int (quantity self)\<rparr>"
    and upd: "Order_update_total_amount
           (db\<lparr>order_items := upsert order_item_id self' (order_items db)\<rparr>) order = (Inr order', db2)"
    and db': "db' = update_stock db2 (product_id self) (quantity self)" by blast
  from assms(2) self' have up: "upsert order_item_id self' (order_items db) = order_items db @ [self']"
    by (simp add: upsert_def)
  from self' False have "item_order_id self' \<noteq> oid" by simp
  then have "filter (\<lambda>item. item_order_id item = oid) (upsert order_item_id self' (order_items db))
      = filter (\<lambda>item. item_order_id item = oid) (order_items db)"
    unfolding up by simp
  from total_consistent_items_cong [OF this] assms(3)
  have "total_consistent (db\<lparr>order_items := upsert order_item_id self' (order_items db)\<rparr>) oid"
    by simp
  with Order_update_total_amount_other [OF upd False] have "total_consistent db2 oid" by simp
  then show ?thesis unfolding db' by (simp add: total_consistent_update_stock)
qed

lemma get_queryset_subset:
  "set (OrderItemViewSet_get_queryset db kw) \<subseteq> set (order_items db)"
  by (auto simp: OrderItemViewSet_get_queryset_def split: option.splits)

lemma OrderItemViewSet_destroy_preserves:
  assumes "OrderItemViewSet_destroy db kw pk = (Inr resp, db')"
    and "distinct (map order_item_id (order_items db))"
    and "total_consistent db oid"
  shows "total_consistent db' oid"
proof -
  from OrderItemViewSet_destroy_Inr [OF assms(1)] obtain order_item and order order1 :: Order where
    f: "find (\<lambda>item. order_item_id item = pk) (OrderItemViewSet_get_queryset db kw) = Some order_item"
    and o: "Order_get db (item_order_id order_item) = Some order"
    and u: "Order_update_total_amount
         (db\<lparr>order_items := filter (\<lambda>item. order_item_id item \<noteq> pk) (order_items db)\<rparr>) order
        = (Inr order1, db')" by blast
  have id: "order_id order = item_order_id order_item" by (rule Order_get_id [OF o])
  show ?thesis
  proof (cases "oid = order_id order")
    case True
    with Order_update_total_amount_consistent [OF u] show ?thesis by simp
  next
    case False
    from find_key [OF f] get_queryset_subset [of db kw]
    have mem: "order_item \<in> set (order_items db)" and pk: "order_item_id order_item = pk" by auto
    have only: "\<And>item. item \<in> set (order_items db) \<Longrightarrow> order_item_id item = pk \<Longrightarrow> item = order_item"
      using assms(2) mem pk by (auto simp: distinct_map inj_on_def)
    have "filter (\<lambda>item. item_order_id item = oid)
            (filter (\<lambda>item. order_item_id item \<noteq> pk) (order_items db))
        = filter (\<lambda>item. item_order_id item = oid) (order_items db)"
      unfolding filter_filter
    proof (rule filter_cong [OF refl])
      fix item assume "item \<in> set (order_items db)"
      with only False id
      show "(order_item_id item \<noteq> pk \<and> item_order_id item = oid) = (item_order_id item = oid)"
        by auto
    qed
    from total_consistent_items_cong [OF this] assms(3)
    have "total_consistent
            (db\<lparr>order_items := filter (\<lambda>item. order_item_id item \<noteq> pk) (order_items db)\<rparr>) oid"
      by simp
    with Order_update_total_amount_other [OF u False] show ?thesis by simp
  qed
qed


section \<open>Line items\<close>

lemma ex_add:
  "OrderItem_save ex_db0 ex_item ex_order =
     (Inr (ex_item\<lparr>total_price := 750\<rparr>, ex_order\<lparr>total_amount := 750\<rparr>), ex_db_added)"
  by (simp add: ex_defs model_defs Let_def)

lemma ex_create:
  "OrderItemViewSet_create ex_db0 ''1000000'' [ex_item] =
     (Inr (201, [ex_item\<lparr>total_price := 750\<rparr>]), ex_db_added)"
  using ex_add by (simp add: OrderItemViewSet_create_def Order_get_def atomic_def ex_db0_def ex_db_def ex_order_def)

lemma ex_destroy:
  "OrderItemViewSet_destroy ex_db_added None 1 =
     (Inr (204, ''message'', ''Order item deleted''), ex_db_removed)"
  by (simp add: ex_defs model_defs Let_def)

lemma ex_destroy_nocust:
  "OrderItemViewSet_destroy ex_db_nocust None 1 =
     (Inl (ValueError ''Invalid customer ID''), ex_db_nocust)"
  by (simp add: ex_defs model_defs Let_def)

text \<open>
  C2. After an item add that completes (\<open>OrderItem.save\<close>, or the view's \<open>create\<close>
  on a non-empty list) and after an item removal that completes (the view's
  \<open>destroy\<close>), the parent order is stored with \<open>total_amount\<close> equal to the sum of
  \<open>total_price\<close> over its live item rows; an order that is consistent in this sense and
  has no item rows has \<open>total_amount\<close> 0. Every other order that was consistent before
  stays consistent, when the added item's key is new (add) and item keys are distinct
  (remove), as primary keys are.
\<close>

theorem total_amount_after_item_operations:
  "(OrderItem_save db self order = (Inr saved, db1) \<longrightarrow> total_consistent db1 (order_id order))
   \<and> (OrderItemViewSet_create db oid data = (Inr created, db2) \<and> data \<noteq> []
        \<longrightarrow> total_consistent db2 oid)
   \<and> (OrderItemViewSet_destroy db kw pk = (Inr resp, db3) \<longrightarrow>
        (\<exists>order_item.
           find (\<lambda>item. order_item_id item = pk) (OrderItemViewSet_get_queryset db kw) = Some order_item
           \<and> total_consistent db3 (item_order_id order_item)))
   \<and> (total_consistent db4 oid4 \<and> \<not> list_ex (\<lambda>item. item_order_id item = oid4) (order_items db4)
        \<longrightarrow> (\<exists>order4. Order_get db4 oid4 = Some order4 \<and> total_amount order4 = 0))
   \<and> (OrderItem_save db self order = (Inr saved, db1)
        \<and> \<not> list_ex (\<lambda>item. order_item_id item = order_item_id self) (order_items db)
        \<and> total_consistent db oid' \<longrightarrow> total_consistent db1 oid')
   \<and> (OrderItemViewSet_destroy db kw pk = (Inr resp, db3)
        \<and> distinct (map order_item_id (order_items db))
        \<and> total_consistent db oid' \<longrightarrow> total_consistent db3 oid')"
proof (intro conjI impI)
  assume s: "OrderItem_save db self order = (Inr saved, db1)"
  obtain self' order' where "saved = (self', order')" by (cases saved)
  with s OrderItem_save_consistent show "total_consistent db1 (order_id order)" by blast
next
  assume "OrderItemViewSet_create db oid data = (Inr created, db2) \<and> data \<noteq> []"
  then show "total_consistent db2 oid" by (auto intro: OrderItemViewSet_create_consistent)
next
  assume d: "OrderItemViewSet_destroy db kw pk = (Inr resp, db3)"
  from OrderItemViewSet_destroy_Inr [OF d] obtain order_item and order order1 :: Order where
    f: "find (\<lambda>item. order_item_id item = pk) (OrderItemViewSet_get_queryset db kw) = Some order_item"
    and o: "Order_get db (item_order_id order_item) = Some order"
    and u: "Order_update_total_amount
         (db\<lparr>order_items := filter (\<lambda>item. order_item_id item \<noteq> pk) (order_items db)\<rparr>) order
        = (Inr order1, db3)" by blast
  from Order_update_total_amount_consistent [OF u] Order_get_id [OF o]
  have "total_consistent db3 (item_order_id order_item)" by simp
  with f show "\<exists>order_item.
           find (\<lambda>item. order_item_id item = pk) (OrderItemViewSet_get_queryset db kw) = Some order_item
           \<and> total_consistent db3 (item_order_id order_item)" by blast
next
  assume a: "total_consistent db4 oid4 \<and> \<not> list_ex (\<lambda>item. item_order_id item = oid4) (order_items db4)"
  then have "filter (\<lambda>item. item_order_id item = oid4) (order_items db4) = []"
    by (simp add: list_ex_iff filter_empty_conv)
  then have "live_total db4 oid4 = 0" by (simp add: live_total_def)
  with a show "\<exists>order4. Order_get db4 oid4 = Some order4 \<and> total_amount order4 = 0"
    by (auto simp: total_consistent_def split: option.splits)
next
  assume "OrderItem_save db self order = (Inr saved, db1)
        \<and> \<not> list_ex (\<lambda>item. order_item_id item = order_item_id self) (order_items db)
        \<and> total_consistent db oid'"
  then show "total_consistent db1 oid'" by (auto intro: OrderItem_save_preserves)
next
  assume "OrderItemViewSet_destroy db kw pk = (Inr resp, db3)
        \<and> distinct (map order_item_id (order_items db))
        \<and> total_consistent db oid'"
  then show "total_consistent db3 oid'" by (auto intro: OrderItemViewSet_destroy_preserves)
qed

theorem total_amount_after_item_operations_witness:
  "OrderItem_save ex_db0 ex_item ex_order =
     (Inr (ex_item\<lparr>total_price := 750\<rparr>, ex_order\<lparr>total_amount := 750\<rparr>), ex_db_added)
   \<and> total_consistent ex_db_added ''1000000''
   \<and> OrderItemViewSet_create ex_db0 ''1000000'' [ex_item] =
     (Inr (201, [ex_item\<lparr>total_price := 750\<rparr>]), ex_db_added)
   \<and> OrderItemViewSet_destroy ex_db_added None 1 =
     (Inr (204, ''message'', ''Order item deleted''), ex_db_removed)
   \<and> total_consistent ex_db_removed ''1000000''
   \<and> (\<exists>order4. Order_get ex_db_removed ''1000000'' = Some order4 \<and> total_amount order4 = 0)"
proof -
  note T = total_amount_after_item_operations
  have a: "total_consistent ex_db_added (order_id ex_order)"
    by (rule T [where db = ex_db0 and self = ex_item and order = ex_order
          and ?db1.0 = ex_db_added, THEN conjunct1, rule_format, OF ex_add])
  have b: "total_consistent ex_db_added ''1000000''"
    by (rule T [where db = ex_db0 and oid = "''1000000''" and data = "[ex_item]"
          and ?db2.0 = ex_db_added, THEN conjunct2, THEN conjunct1, rule_format])
       (simp add: ex_create)
  have "\<exists>order_item.
     find (\<lambda>item. order_item_id item = 1) (OrderItemViewSet_get_queryset ex_db_added None)
       = Some order_item
     \<and> total_consistent ex_db_removed (item_order_id order_item)"
    by (rule T [where db = ex_db_added and kw = None and pk = 1 and ?db3.0 = ex_db_removed,
          THEN conjunct2, THEN conjunct2, THEN conjunct1, rule_format, OF ex_destroy])
  then obtain order_item where c: "total_consistent ex_db_removed (item_order_id order_item)"
    and f: "find (\<lambda>item. order_item_id item = 1) (OrderItemViewSet_get_queryset ex_db_added None)
       = Some order_item"
    by (elim exE conjE)
  from f have "item_order_id order_item = ''1000000''"
    by (auto simp: ex_defs OrderItemViewSet_get_queryset_def)
  with c have c': "total_consistent ex_db_removed ''1000000''" by simp
  have d: "\<exists>order4. Order_get ex_db_removed ''1000000'' = Some order4 \<and> total_amount order4 = 0"
    by (rule T [where ?db4.0 = ex_db_removed and ?oid4.0 = "''1000000''",
          THEN conjunct2, THEN conjunct2, THEN conjunct2, THEN conjunct1, rule_format])
       (use c' in \<open>simp add: ex_defs\<close>)
  from b c' d ex_add ex_create ex_destroy show ?thesis by simp
qed


text \<open>
  C3. When the catalog stock of the item's product is strictly less than the requested
  quantity, \<open>OrderItem.save\<close> raises \<open>ValueError("Insufficient stock for product")\<close> and
  the store it leaves is the store it was given: stock is not decremented, no item row is
  written and no order total changes. The same holds for the view's \<open>create\<close> called
  with that item.
\<close>

theorem OrderItem_save_insufficient_stock:
  assumes "products db (product_id self) = Some stock" and "stock < int (quantity self)"
  shows "OrderItem_save db self order = (Inl (ValueError ''Insufficient stock for product''), db)
       \<and> (Order_get db oid = Some order \<longrightarrow>
            OrderItemViewSet_create db oid [self] =
              (Inl (ValueError ''Insufficient stock for product''), db))"
proof -
  from assms have s: "OrderItem_save db self order =
      (Inl (ValueError ''Insufficient stock for product''), db)"
    by (simp add: OrderItem_save_def)
  then show ?thesis by (simp add: OrderItemViewSet_create_def atomic_def)
qed

theorem OrderItem_save_insufficient_stock_witness:
  "products ex_db0 (product_id (ex_item\<lparr>quantity := 11\<rparr>)) = Some 10
   \<and> (10::int) < int (quantity (ex_item\<lparr>quantity := 11\<rparr>))
   \<and> Order_get ex_db0 ''1000000'' = Some ex_order
   \<and> OrderItem_save ex_db0 (ex_item\<lparr>quantity := 11\<rparr>) ex_order =
        (Inl (ValueError ''Insufficient stock for product''), ex_db0)
   \<and> OrderItemViewSet_create ex_db0 ''1000000'' [ex_item\<lparr>quantity := 11\<rparr>] =
        (Inl (ValueError ''Insufficient stock for product''), ex_db0)"
proof -
  have p: "products ex_db0 (product_id (ex_item\<lparr>quantity := 11\<rparr>)) = Some 10"
    by (simp add: ex_defs)
  have q: "(10::int) < int (quantity (ex_item\<lparr>quantity := 11\<rparr>))" by (simp add: ex_defs)
  have o: "Order_get ex_db0 ''1000000'' = Some ex_order" by (simp add: ex_defs Order_get_def)
  from OrderItem_save_insufficient_stock [OF p q, of ex_order "''1000000''"] p q o
  show ?thesis by simp
qed

lemma OrderItemViewSet_create_rollback:
  "OrderItemViewSet_create db oid data = (Inl e, db') \<Longrightarrow> db' = db"
  by (auto simp: OrderItemViewSet_create_def atomic_Inl split: option.splits)








text \<open>
  C8 (as the code has it). For an item the view finds, whose parent order exists: when the
  order's customer id is still in the customer table, \<open>destroy\<close> answers 204, no row
  with the item's key remains, the parent order's \<open>total_amount\<close> is the recomputed sum,
  and the catalog stock is unchanged (not restored); when the customer id is not in the
  table, the recomputation's \<open>Order.save\<close> raises \<open>ValueError("Invalid customer ID")\<close>
  and the transaction rolls the deletion back. The claim as stated, that every existing
  item is deleted, fails in the second case: see the counterexample below.
\<close>

theorem OrderItemViewSet_destroy_effect:
  assumes "find (\<lambda>item. order_item_id item = pk) (OrderItemViewSet_get_queryset db kw) = Some order_item"
    and "Order_get db (item_order_id order_item) = Some order"
  shows "(count_list (customers db) (customer_id order) \<noteq> 0 \<longrightarrow>
           (\<exists>db'. OrderItemViewSet_destroy db kw pk =
                    (Inr (204, ''message'', ''Order item deleted''), db')
              \<and> order_items db' = filter (\<lambda>item. order_item_id item \<noteq> pk) (order_items db)
              \<and> \<not> list_ex (\<lambda>item. order_item_id item = pk) (order_items db')
              \<and> total_consistent db' (item_order_id order_item)
              \<and> products db' = products db))
       \<and> (count_list (customers db) (customer_id order) = 0 \<longrightarrow>
           OrderItemViewSet_destroy db kw pk = (Inl (ValueError ''Invalid customer ID''), db))"
proof (intro conjI impI)
  have pk: "order_item_id order_item = pk" using find_key [OF assms(1)] by simp
  let ?db1 = "db\<lparr>order_items := filter (\<lambda>item. order_item_id item \<noteq> pk) (order_items db)\<rparr>"
  {
    assume valid: "count_list (customers db) (customer_id order) \<noteq> 0"
    then have "count_list (customers ?db1) (customer_id order) \<noteq> 0" by simp
    from Order_update_total_amount_valid [OF this] obtain order1 db' where
      u: "Order_update_total_amount ?db1 order = (Inr order1, db')" by blast
    from Order_update_total_amount_consistent [OF u] Order_get_id [OF assms(2)]
    have c: "total_consistent db' (item_order_id order_item)"
      and i: "order_items db' = filter (\<lambda>item. order_item_id item \<noteq> pk) (order_items db)"
      and p: "products db' = products db" by simp_all
    from i have n: "\<not> list_ex (\<lambda>item. order_item_id item = pk) (order_items db')"
      by (simp add: list_ex_iff)
    have "OrderItemViewSet_destroy db kw pk = (Inr (204, ''message'', ''Order item deleted''), db')"
      using assms u pk by (simp add: OrderItemViewSet_destroy_def atomic_def Let_def)
    with c i p n show "\<exists>db'. OrderItemViewSet_destroy db kw pk =
                    (Inr (204, ''message'', ''Order item deleted''), db')
              \<and> order_items db' = filter (\<lambda>item. order_item_id item \<noteq> pk) (order_items db)
              \<and> \<not> list_ex (\<lambda>item. order_item_id item = pk) (order_items db')
              \<and> total_consistent db' (item_order_id order_item)
              \<and> products db' = products db" by blast
  }
  {
    assume "count_list (customers db) (customer_id order) = 0"
    then have "Order_update_total_amount ?db1 order = (Inl (ValueError ''Invalid customer ID''), ?db1)"
      by (simp add: Order_update_total_amount_def Order_save_def)
    then show "OrderItemViewSet_destroy db kw pk = (Inl (ValueError ''Invalid customer ID''), db)"
      using assms pk by (simp add: OrderItemViewSet_destroy_def atomic_def Let_def)
  }
qed

theorem OrderItemViewSet_destroy_counterexample:
  "find (\<lambda>item. order_item_id item = 1) (order_items ex_db_nocust) = Some (ex_item\<lparr>total_price := 750\<rparr>)
   \<and> Order_get ex_db_nocust ''1000000'' = Some (ex_order\<lparr>total_amount := 750\<rparr>)
   \<and> OrderItemViewSet_destroy ex_db_nocust None 1 =
        (Inl (ValueError ''Invalid customer ID''), ex_db_nocust)
   \<and> list_ex (\<lambda>item. order_item_id item = 1) (order_items (snd (OrderItemViewSet_destroy ex_db_nocust None 1)))"
proof -
  have "find (\<lambda>item. order_item_id item = 1) (order_items ex_db_nocust) = Some (ex_item\<lparr>total_price := 750\<rparr>)"
    by (simp add: ex_defs)
  moreover have "Order_get ex_db_nocust ''1000000'' = Some (ex_order\<lparr>total_amount := 750\<rparr>)"
    by (simp add: ex_defs Order_get_def)
  moreover have "list_ex (\<lambda>item. order_item_id item = 1) (order_items ex_db_nocust)"
    by (simp add: ex_defs)
  ultimately show ?thesis using ex_destroy_nocust by simp
qed

theorem OrderItemViewSet_destroy_effect_witness:
  "find (\<lambda>item. order_item_id item = 1) (OrderItemViewSet_get_queryset ex_db_added None)
      = Some (ex_item\<lparr>total_price := 750\<rparr>)
   \<and> Order_get ex_db_added (item_order_id (ex_item\<lparr>total_price := 750\<rparr>))
      = Some (ex_order\<lparr>total_amount := 750\<rparr>)
   \<and> count_list (customers ex_db_added) (customer_id (ex_order\<lparr>total_amount := 750\<rparr>)) \<noteq> 0
   \<and> (\<exists>db'. OrderItemViewSet_destroy ex_db_added None 1 =
                    (Inr (204, ''message'', ''Order item deleted''), db')
              \<and> order_items db' = filter (\<lambda>item. order_item_id item \<noteq> 1) (order_items ex_db_added)
              \<and> \<not> list_ex (\<lambda>item. order_item_id item = 1) (order_items db')
              \<and> total_consistent db' (item_order_id (ex_item\<lparr>total_price := 750\<rparr>))
              \<and> products db' = products ex_db_added)
   \<and> products ex_db_removed ''p1'' = Some 7
   \<and> Order_get ex_db_removed ''1000000'' = Some ex_order
   \<and> total_amount ex_order = 0"
proof -
  have f: "find (\<lambda>item. order_item_id item = 1) (OrderItemViewSet_get_queryset ex_db_added None)
      = Some (ex_item\<lparr>total_price := 750\<rparr>)"
    by (simp add: ex_defs OrderItemViewSet_get_queryset_def)
  have o: "Order_get ex_db_added (item_order_id (ex_item\<lparr>total_price := 750\<rparr>))
      = Some (ex_order\<lparr>total_amount := 750\<rparr>)"
    by (simp add: ex_defs Order_get_def)
  have c: "count_list (customers ex_db_added) (customer_id (ex_order\<lparr>total_amount := 750\<rparr>)) \<noteq> 0"
    by (simp add: ex_defs)
  have r: "products ex_db_removed ''p1'' = Some 7 \<and> Order_get ex_db_removed ''1000000'' = Some ex_order
     \<and> total_amount ex_order = 0"
    by (simp add: ex_defs Order_get_def)
  from OrderItemViewSet_destroy_effect [OF f o] c f o r show ?thesis by blast
qed

text \<open>
  C10. For an order that has no payment row, \<open>update_status\<close> with \<open>delivered\<close>
  raises \<open>RelatedObjectDoesNotExist\<close> (the accessor \<open>order.payment\<close> fails), which is
  none of the exceptions the code uses for its domain errors, and the store, hence the
  order's status and the status history, is left as it was.
\<close>

theorem update_status_no_payment_raises:
  assumes "Order_get db oid = Some order" and "Payment_get db oid = None"
  shows "OrderViewSet_update_status db oid (Some ''delivered'') = (Inl RelatedObjectDoesNotExist, db)
       \<and> RelatedObjectDoesNotExist \<notin>
           {OrderNotFoundException, OrderItemNotFoundException, InvalidOrderStatusException, Http404}
       \<and> (\<forall>msg. RelatedObjectDoesNotExist \<noteq> ValueError msg)"
  using assms Order_get_id [OF assms(1)]
  by (simp add: OrderViewSet_update_status_def delivered_without_payment_def STATUS_CHOICES_def)

theorem update_status_no_payment_raises_witness:
  "Order_get ex_db_nopayment ''1000000'' = Some (ex_order\<lparr>total_amount := 750\<rparr>)
   \<and> Payment_get ex_db_nopayment ''1000000'' = None
   \<and> OrderViewSet_update_status ex_db_nopayment ''1000000'' (Some ''delivered'')
        = (Inl RelatedObjectDoesNotExist, ex_db_nopayment)"
proof -
  have o: "Order_get ex_db_nopayment ''1000000'' = Some (ex_order\<lparr>total_amount := 750\<rparr>)"
    by (simp add: ex_defs Order_get_def)
  have p: "Payment_get ex_db_nopayment ''1000000'' = None"
    by (simp add: ex_defs Payment_get_def)
  from update_status_no_payment_raises [OF o p] o p show ?thesis by simp
qed

text \<open>
  C4 (as the code has it). For an order with a payment row, \<open>update_status\<close> with
  \<open>delivered\<close>: when the payment status is not \<open>success\<close> it answers 400 with an
  error and leaves the store unchanged; when the payment status is \<open>success\<close> and the
  order's customer id is still in the customer table it answers 200, the order is stored
  with status \<open>delivered\<close> and exactly one history row (the order, \<open>delivered\<close>) is
  appended; when the payment status is \<open>success\<close> and the customer id is not in the
  table, \<open>Order.save\<close> raises \<open>ValueError("Invalid customer ID")\<close> and the store is
  unchanged. The claim as stated, that a successful payment is enough for the transition
  to succeed, fails in the last case: see the counterexample below.
\<close>

theorem update_status_delivered:
  assumes "Order_get db oid = Some order" and "Payment_get db oid = Some payment"
  shows "(payment_status payment \<noteq> ''success'' \<longrightarrow>
            OrderViewSet_update_status db oid (Some ''delivered'') =
              (Inr (400, ''error'',
                    ''Order cannot be marked as delivered without successful payment''), db))
      \<and> (payment_status payment = ''success''
           \<and> count_list (customers db) (customer_id order) \<noteq> 0 \<longrightarrow>
            (\<exists>db'. OrderViewSet_update_status db oid (Some ''delivered'') =
                     (Inr (200, ''message'', ''Order '' @ oid @ '' updated to delivered''), db')
               \<and> Order_get db' oid = Some (order\<lparr>status := ''delivered''\<rparr>)
               \<and> status_history db' = status_history db @
                   [\<lparr>history_order_id = oid, history_status = ''delivered''\<rparr>]))
      \<and> (payment_status payment = ''success''
           \<and> count_list (customers db) (customer_id order) = 0 \<longrightarrow>
            OrderViewSet_update_status db oid (Some ''delivered'') =
              (Inl (ValueError ''Invalid customer ID''), db))"
proof -
  have id: "order_id order = oid" by (rule Order_get_id [OF assms(1)])
  have g: "delivered_without_payment db order ''delivered'' = Inr (payment_status payment \<noteq> ''success'')"
    using assms id by (simp add: delivered_without_payment_def)
  have m: "''delivered'' \<in> set (map fst STATUS_CHOICES)" by (simp add: STATUS_CHOICES_def)
  have get: "Order_get (db\<lparr>orders := upsert order_id (order\<lparr>status := ''delivered''\<rparr>) (orders db)\<rparr>) oid
      = Some (order\<lparr>status := ''delivered''\<rparr>)"
    using Order_get_after_save [where db = db and self = "order\<lparr>status := ''delivered''\<rparr>"] id by simp
  show ?thesis
    using assms(1) g m id get
    by (simp add: OrderViewSet_update_status_def Order_save_def OrderStatusHistory_create_def
                  Order_get_def)
qed

theorem update_status_delivered_counterexample:
  "Order_get ex_db_paid_nocust ''1000000'' = Some (ex_order\<lparr>total_amount := 750, status := ''shipped''\<rparr>)
   \<and> map_option payment_status (Payment_get ex_db_paid_nocust ''1000000'') = Some ''success''
   \<and> OrderViewSet_update_status ex_db_paid_nocust ''1000000'' (Some ''delivered'') =
        (Inl (ValueError ''Invalid customer ID''), ex_db_paid_nocust)"
  by (simp add: ex_defs model_defs)

theorem update_status_delivered_witness:
  "Order_get ex_db_added ''1000000'' = Some (ex_order\<lparr>total_amount := 750\<rparr>)
   \<and> Payment_get ex_db_added ''1000000'' = Some ex_payment
   \<and> payment_status ex_payment \<noteq> ''success''
   \<and> OrderViewSet_update_status ex_db_added ''1000000'' (Some ''delivered'') =
              (Inr (400, ''error'',
                    ''Order cannot be marked as delivered without successful payment''), ex_db_added)
   \<and> Order_get ex_db_paid ''1000000'' = Some (ex_order\<lparr>total_amount := 750, status := ''shipped''\<rparr>)
   \<and> Payment_get ex_db_paid ''1000000'' = Some ex_payment_paid
   \<and> payment_status ex_payment_paid = ''success''
   \<and> count_list (customers ex_db_paid) (customer_id (ex_order\<lparr>total_amount := 750, status := ''shipped''\<rparr>)) \<noteq> 0
   \<and> (\<exists>db'. OrderViewSet_update_status ex_db_paid ''1000000'' (Some ''delivered'') =
                     (Inr (200, ''message'', ''Order 1000000 updated to delivered''), db')
               \<and> Order_get db' ''1000000'' = Some (ex_order\<lparr>total_amount := 750, status := ''delivered''\<rparr>)
               \<and> status_history db' = status_history ex_db_paid @
                   [\<lparr>history_order_id = ''1000000'', history_status = ''delivered''\<rparr>])"
proof -
  have o1: "Order_get ex_db_added ''1000000'' = Some (ex_order\<lparr>total_amount := 750\<rparr>)"
    by (simp add: ex_defs Order_get_def)
  have p1: "Payment_get ex_db_added ''1000000'' = Some ex_payment"
    by (simp add: ex_defs Payment_get_def)
  have s1: "payment_status ex_payment \<noteq> ''success''" by (simp add: ex_defs)
  have o2: "Order_get ex_db_paid ''1000000'' = Some (ex_order\<lparr>total_amount := 750, status := ''shipped''\<rparr>)"
    by (simp add: ex_defs Order_get_def)
  have p2: "Payment_get ex_db_paid ''1000000'' = Some ex_payment_paid"
    by (simp add: ex_defs Payment_get_def)
  have s2: "payment_status ex_payment_paid = ''success''" by (simp add: ex_defs)
  have c2: "count_list (customers ex_db_paid) (customer_id (ex_order\<lparr>total_amount := 750, status := ''shipped''\<rparr>)) \<noteq> 0"
    by (simp add: ex_defs)
  from update_status_delivered [OF o1 p1] update_status_delivered [OF o2 p2] o1 p1 s1 o2 p2 s2 c2
  show ?thesis by simp
qed


section \<open>Payments\<close>

subsection \<open>Transaction identifiers\<close>

lemma uuid4_int_lower: "2 ^ 78 \<le> unat (uuid4_int r)"
proof -
  have "(push_bit 76 4 :: 128 word) \<le> uuid4_int r"
    unfolding uuid4_int_def by (subst or.commute) (rule le_word_or2)
  then have "unat (push_bit 76 4 :: 128 word) \<le> unat (uuid4_int r)"
    by (simp add: word_le_nat_alt)
  moreover have "unat (push_bit 76 4 :: 128 word) = 2 ^ 78"
    by (simp add: push_bit_eq_mult)
  ultimately show ?thesis by simp
qed

lemma transaction_id_draw_shape:
  "length (take 12 (str_nat (unat (uuid4_int r)))) = 12
   \<and> list_all is_digit (take 12 (str_nat (unat (uuid4_int r))))"
proof -
  have "(10::nat) ^ 11 \<le> 2 ^ 78" by simp
  also have "\<dots> \<le> unat (uuid4_int r)" by (rule uuid4_int_lower)
  finally have "11 < length (str_nat (unat (uuid4_int r)))" by (rule str_nat_length_lower)
  then have "length (take 12 (str_nat (unat (uuid4_int r)))) = 12" by simp
  moreover have "list_all is_digit (take 12 (str_nat (unat (uuid4_int r))))"
    using str_nat_digits [of "unat (uuid4_int r)"]
    by (auto simp: list_all_iff dest: in_set_takeD)
  ultimately show ?thesis by simp
qed

lemma Payment_generate_transaction_id_returned:
  assumes "Payment_generate_transaction_id rnd db i = Some tid"
  shows "length tid = 12 \<and> list_all is_digit tid
         \<and> \<not> list_ex (\<lambda>payment. transaction_id payment = Some tid) (payments db)"
proof -
  define P where "P = (\<lambda>(rnd :: nat \<Rightarrow> 128 word) (db :: store) (i :: nat) tid.
     length tid = 12 \<and> list_all is_digit tid
     \<and> \<not> list_ex (\<lambda>payment. transaction_id payment = Some tid) (payments db))"
  have "P rnd db i tid"
  proof (rule Payment_generate_transaction_id.raw_induct [where P = P, OF _ assms])
    fix gen rnd db i tid
    assume IH: "\<And>rnd db i tid. gen rnd db i = Some tid \<Longrightarrow> P rnd db i tid"
    assume step: "(let transaction_id' = take 12 (str_nat (unat (uuid4_int (rnd i))))
      in if \<not> list_ex (\<lambda>payment. transaction_id payment = Some transaction_id') (payments db)
         then Some transaction_id'
         else gen rnd db (Suc i)) = Some tid"
    let ?t = "take 12 (str_nat (unat (uuid4_int (rnd i))))"
    show "P rnd db i tid"
    proof (cases "list_ex (\<lambda>payment. transaction_id payment = Some ?t) (payments db)")
      case True
      with step have "gen rnd db (Suc i) = Some tid" by (simp add: Let_def)
      then have "P rnd db (Suc i) tid" by (rule IH)
      then show ?thesis unfolding P_def .
    next
      case False
      with step have "tid = ?t" by (simp add: Let_def)
      with False transaction_id_draw_shape [of "rnd i"] show ?thesis unfolding P_def by simp
    qed
  qed
  then show ?thesis unfolding P_def .
qed

lemma Payment_generate_transaction_id_terminates:
  "\<not> list_ex (\<lambda>payment. transaction_id payment =
        Some (take 12 (str_nat (unat (uuid4_int (rnd (i + k))))))) (payments db)
   \<Longrightarrow> \<exists>tid. Payment_generate_transaction_id rnd db i = Some tid"
proof (induction k arbitrary: i)
  case 0
  then show ?case by (subst Payment_generate_transaction_id.simps) (simp add: Let_def)
next
  case (Suc k)
  then have "\<exists>tid. Payment_generate_transaction_id rnd db (Suc i) = Some tid" by simp
  then show ?case by (subst Payment_generate_transaction_id.simps) (simp add: Let_def)
qed

subsection \<open>Payment.save\<close>

lemma Payment_save_success_Inr:
  assumes "Payment_save rnd now db self = (Inr self', db')" and "payment_status self = ''success''"
  shows "\<exists>tid order. Order_get db (payment_order_id self) = Some order
     \<and> (unassigned (transaction_id self)
           \<longrightarrow> Payment_generate_transaction_id rnd db 0 = Some tid)
     \<and> (\<not> unassigned (transaction_id self) \<longrightarrow> transaction_id self = Some tid)
     \<and> self' = self\<lparr>transaction_id := Some tid, payment_date := Some now,
                      amount_paid := Some (total_amount order)\<rparr>
     \<and> db' = db\<lparr>payments := upsert payment_id self' (payments db)\<rparr>"
  using assms unfolding Payment_save_def
  by (auto simp: Let_def split: option.splits if_splits)

lemma Payment_save_other:
  assumes "payment_status self \<noteq> ''success''"
  shows "Payment_save rnd now db self =
     (Inr (self\<lparr>transaction_id := None, payment_date := None, amount_paid := None\<rparr>),
      db\<lparr>payments := upsert payment_id
             (self\<lparr>transaction_id := None, payment_date := None, amount_paid := None\<rparr>)
             (payments db)\<rparr>)"
  using assms by (simp add: Payment_save_def Let_def)

lemma Payment_save_stored:
  assumes "Payment_save rnd now db self = (Inr self', db')"
  shows "find (\<lambda>p. payment_id p = payment_id self) (payments db') = Some self'
         \<and> payment_id self' = payment_id self \<and> payment_order_id self' = payment_order_id self
         \<and> payment_status self' = payment_status self
         \<and> db' = db\<lparr>payments := upsert payment_id self' (payments db)\<rparr>"
proof (cases "payment_status self = ''success''")
  case True
  from Payment_save_success_Inr [OF assms True] obtain tid and order :: Order where
    s: "self' = self\<lparr>transaction_id := Some tid, payment_date := Some now,
                      amount_paid := Some (total_amount order)\<rparr>"
    and d: "db' = db\<lparr>payments := upsert payment_id self' (payments db)\<rparr>"
    by blast
  from s have id: "payment_id self = payment_id self'" by simp
  have "find (\<lambda>p. payment_id p = payment_id self) (payments db') = Some self'"
    unfolding id by (subst d) (simp add: find_upsert_same)
  with s d show ?thesis by simp
next
  case False
  from assms Payment_save_other [OF False, of rnd now db]
  have s: "self' = self\<lparr>transaction_id := None, payment_date := None, amount_paid := None\<rparr>"
    and d: "db' = db\<lparr>payments := upsert payment_id self' (payments db)\<rparr>" by auto
  from s have id: "payment_id self = payment_id self'" by simp
  have "find (\<lambda>p. payment_id p = payment_id self) (payments db') = Some self'"
    unfolding id by (subst d) (simp add: find_upsert_same)
  with s d show ?thesis by simp
qed

text \<open>
  C1 (as the code has it). A save of a payment that carries a non-empty transaction
  identifier keeps that identifier when the status being saved is \<open>success\<close>, and
  clears it (the stored value becomes null) when the status is anything else, such as
  \<open>pending\<close> or \<open>failed\<close>; in both cases the row stored under the payment's key is the
  instance returned. The claim as stated, that the identifier survives a save with any
  status, fails on the \<open>else\<close> branch of \<open>Payment.save\<close>: see the counterexample below.
\<close>

theorem Payment_save_transaction_id:
  assumes "Payment_save rnd now db self = (Inr self', db')"
    and "transaction_id self = Some tid" and "tid \<noteq> []"
  shows "(payment_status self = ''success'' \<longrightarrow> transaction_id self' = Some tid)
       \<and> (payment_status self \<noteq> ''success'' \<longrightarrow> transaction_id self' = None)
       \<and> find (\<lambda>p. payment_id p = payment_id self) (payments db') = Some self'"
proof -
  from assms(2,3) have n: "\<not> unassigned (transaction_id self)" by (simp add: unassigned_def)
  have a: "payment_status self = ''success'' \<longrightarrow> transaction_id self' = Some tid"
  proof
    assume s: "payment_status self = ''success''"
    from Payment_save_success_Inr [OF assms(1) s] n assms(2)
    show "transaction_id self' = Some tid" by auto
  qed
  have b: "payment_status self \<noteq> ''success'' \<longrightarrow> transaction_id self' = None"
  proof
    assume s: "payment_status self \<noteq> ''success''"
    from Payment_save_other [OF s, of rnd now db] assms(1)
    show "transaction_id self' = None" by auto
  qed
  from a b Payment_save_stored [OF assms(1), THEN conjunct1] show ?thesis by blast
qed

lemma ex_generate:
  "Payment_generate_transaction_id (\<lambda>i. 0) ex_db_added 0 = Some ''302240678275''"
  by (subst Payment_generate_transaction_id.simps)
     (simp add: Let_def ex_defs uuid4_int_def str_nat.simps digit_chars_def)

lemma ex_save_success:
  "Payment_save (\<lambda>i. 0) 5 ex_db_added (ex_payment\<lparr>payment_status := ''success''\<rparr>) =
     (Inr ex_payment_paid, ex_db_added\<lparr>payments := [ex_payment_paid]\<rparr>)"
proof -
  have u: "unassigned (transaction_id (ex_payment\<lparr>payment_status := ''success''\<rparr>))"
    by (simp add: unassigned_def ex_payment_def)
  have o: "Order_get ex_db_added (payment_order_id (ex_payment\<lparr>payment_status := ''success''\<rparr>))
      = Some (ex_order\<lparr>total_amount := 750\<rparr>)"
    by (simp add: Order_get_def ex_defs)
  show ?thesis
    unfolding Payment_save_def using u o ex_generate
    by (simp add: Let_def) (simp add: ex_defs upsert_def)
qed

lemma ex_save_failed:
  "Payment_save (\<lambda>i. 0) 6 (ex_db_added\<lparr>payments := [ex_payment_paid]\<rparr>)
       (ex_payment_paid\<lparr>payment_status := ''failed''\<rparr>) =
     (Inr (ex_payment\<lparr>payment_status := ''failed''\<rparr>),
      ex_db_added\<lparr>payments := [ex_payment\<lparr>payment_status := ''failed''\<rparr>]\<rparr>)"
  by (simp add: Payment_save_def Let_def ex_defs upsert_def)

lemma ex_save_again:
  "Payment_save (\<lambda>i. 0) 6 (ex_db_added\<lparr>payments := [ex_payment_paid]\<rparr>) ex_payment_paid =
     (Inr (ex_payment_paid\<lparr>payment_date := Some 6\<rparr>),
      ex_db_added\<lparr>payments := [ex_payment_paid\<lparr>payment_date := Some 6\<rparr>]\<rparr>)"
  by (simp add: Payment_save_def Let_def ex_defs upsert_def unassigned_def Order_get_def)

theorem Payment_save_transaction_id_counterexample:
  "Payment_save (\<lambda>i. 0) 5 ex_db_added (ex_payment\<lparr>payment_status := ''success''\<rparr>) =
     (Inr ex_payment_paid, ex_db_added\<lparr>payments := [ex_payment_paid]\<rparr>)
   \<and> transaction_id ex_payment_paid = Some ''302240678275''
   \<and> Payment_save (\<lambda>i. 0) 6 (ex_db_added\<lparr>payments := [ex_payment_paid]\<rparr>)
       (ex_payment_paid\<lparr>payment_status := ''failed''\<rparr>) =
     (Inr (ex_payment\<lparr>payment_status := ''failed''\<rparr>),
      ex_db_added\<lparr>payments := [ex_payment\<lparr>payment_status := ''failed''\<rparr>]\<rparr>)
   \<and> transaction_id (ex_payment\<lparr>payment_status := ''failed''\<rparr>) = None"
  using ex_save_success ex_save_failed by (simp add: ex_payment_paid_def ex_payment_def)

theorem Payment_save_transaction_id_witness:
  "Payment_save (\<lambda>i. 0) 6 (ex_db_added\<lparr>payments := [ex_payment_paid]\<rparr>) ex_payment_paid =
     (Inr (ex_payment_paid\<lparr>payment_date := Some 6\<rparr>),
      ex_db_added\<lparr>payments := [ex_payment_paid\<lparr>payment_date := Some 6\<rparr>]\<rparr>)
   \<and> transaction_id ex_payment_paid = Some ''302240678275'' \<and> ''302240678275'' \<noteq> []
   \<and> payment_status ex_payment_paid = ''success''
   \<and> transaction_id (ex_payment_paid\<lparr>payment_date := Some 6\<rparr>) = Some ''302240678275''
   \<and> Payment_save (\<lambda>i. 0) 6 (ex_db_added\<lparr>payments := [ex_payment_paid]\<rparr>)
       (ex_payment_paid\<lparr>payment_status := ''failed''\<rparr>) =
     (Inr (ex_payment\<lparr>payment_status := ''failed''\<rparr>),
      ex_db_added\<lparr>payments := [ex_payment\<lparr>payment_status := ''failed''\<rparr>]\<rparr>)
   \<and> payment_status (ex_payment_paid\<lparr>payment_status := ''failed''\<rparr>) \<noteq> ''success''
   \<and> transaction_id (ex_payment\<lparr>payment_status := ''failed''\<rparr>) = None"
proof -
  have t: "transaction_id ex_payment_paid = Some ''302240678275''"
    by (simp add: ex_payment_paid_def)
  have t': "transaction_id (ex_payment_paid\<lparr>payment_status := ''failed''\<rparr>) = Some ''302240678275''"
    by (simp add: ex_payment_paid_def)
  have n: "''302240678275'' \<noteq> []" by simp
  have s: "payment_status ex_payment_paid = ''success''" by (simp add: ex_payment_paid_def)
  have f: "payment_status (ex_payment_paid\<lparr>payment_status := ''failed''\<rparr>) \<noteq> ''success''" by simp
  from Payment_save_transaction_id [OF ex_save_again t n]
       Payment_save_transaction_id [OF ex_save_failed t' n]
       ex_save_again ex_save_failed t s f
  show ?thesis by simp
qed


subsection \<open>confirm\_payment\<close>

lemma Order_get_payments_upd [simp]:
  "Order_get (db\<lparr>payments := ps\<rparr>) oid = Order_get db oid"
  by (simp add: Order_get_def)

lemma Payment_get_orders_upd [simp]:
  "Payment_get (db\<lparr>orders := os\<rparr>) oid = Payment_get db oid"
  by (simp add: Payment_get_def)

lemma confirm_payment_already:
  assumes "Payment_get db oid = Some payment" and "payment_status payment = ''success''"
  shows "PaymentViewSet_confirm_payment rnd now db oid =
           (Inr (400, ''message'', ''Payment already marked as successful''), db)"
  using assms by (simp add: PaymentViewSet_confirm_payment_def)

lemma confirm_payment_unfold:
  assumes "Payment_get db oid = Some payment" and "payment_status payment \<noteq> ''success''"
    and "Payment_save rnd now db (payment\<lparr>payment_status := ''success''\<rparr>) = (Inr payment1, db1)"
    and "Order_get db oid = Some order"
  shows "Payment_get db1 oid = Some payment1 \<and> Order_get db1 oid = Some order
     \<and> PaymentViewSet_confirm_payment rnd now db oid =
        (case Order_save db1 (order\<lparr>status := ''shipped''\<rparr>) of
           (Inl e, db2) \<Rightarrow> (Inl e, db2)
         | (Inr order1, db2) \<Rightarrow>
             (Inr (200, ''message'', ''Payment confirmed successfully''),
              OrderStatusHistory_create db2 (order_id order1) ''shipped''))"
proof -
  have pid: "payment_order_id payment = oid" by (rule Payment_get_id [OF assms(1)])
  from Payment_save_stored [OF assms(3)]
  have k: "payment_id payment1 = payment_id payment" and o: "payment_order_id payment1 = oid"
    and d: "db1 = db\<lparr>payments := upsert payment_id payment1 (payments db)\<rparr>"
    using pid by simp_all
  have g1: "Payment_get db1 oid = Some payment1"
    unfolding Payment_get_def
    by (subst d) (use assms(1) k o in \<open>simp add: Payment_get_def find_upsert_rel\<close>)
  have g2: "Order_get db1 oid = Some order" by (subst d) (simp add: assms(4))
  from assms(1,2,3) o g2 have "PaymentViewSet_confirm_payment rnd now db oid =
        (case Order_save db1 (order\<lparr>status := ''shipped''\<rparr>) of
           (Inl e, db2) \<Rightarrow> (Inl e, db2)
         | (Inr order1, db2) \<Rightarrow>
             (Inr (200, ''message'', ''Payment confirmed successfully''),
              OrderStatusHistory_create db2 (order_id order1) ''shipped''))"
    by (simp add: PaymentViewSet_confirm_payment_def)
  with g1 g2 show ?thesis by simp
qed

lemma confirm_payment_Inr_200:
  assumes "PaymentViewSet_confirm_payment rnd now db oid = (Inr (200, msg), db')"
  shows "\<exists>payment payment1 db1 order.
     Payment_get db oid = Some payment \<and> payment_status payment \<noteq> ''success''
     \<and> Payment_save rnd now db (payment\<lparr>payment_status := ''success''\<rparr>) = (Inr payment1, db1)
     \<and> Order_get db oid = Some order
     \<and> Order_save db1 (order\<lparr>status := ''shipped''\<rparr>) =
          (Inr (order\<lparr>status := ''shipped''\<rparr>), db1\<lparr>orders := upsert order_id (order\<lparr>status := ''shipped''\<rparr>) (orders db1)\<rparr>)
     \<and> db' = OrderStatusHistory_create
                (db1\<lparr>orders := upsert order_id (order\<lparr>status := ''shipped''\<rparr>) (orders db1)\<rparr>) oid ''shipped''"
proof -
  from assms obtain payment where p: "Payment_get db oid = Some payment"
    by (auto simp: PaymentViewSet_confirm_payment_def split: option.splits)
  have pid: "payment_order_id payment = oid" by (rule Payment_get_id [OF p])
  from assms p have ns: "payment_status payment \<noteq> ''success''"
    by (auto simp: PaymentViewSet_confirm_payment_def split: if_splits)
  from assms p ns obtain payment1 db1 where
    s: "Payment_save rnd now db (payment\<lparr>payment_status := ''success''\<rparr>) = (Inr payment1, db1)"
    by (auto simp: PaymentViewSet_confirm_payment_def split: prod.splits sum.splits)
  from Payment_save_success_Inr [OF s] pid obtain order :: Order where
    o: "Order_get db oid = Some order" by auto
  from confirm_payment_unfold [OF p ns s o] assms
  have c: "(case Order_save db1 (order\<lparr>status := ''shipped''\<rparr>) of
           (Inl e, db2) \<Rightarrow> (Inl e, db2)
         | (Inr order1, db2) \<Rightarrow>
             (Inr (200::nat, ''message'', ''Payment confirmed successfully''),
              OrderStatusHistory_create db2 (order_id order1) ''shipped'')) = (Inr (200, msg), db')"
    by simp
  then obtain order1 db2 where os: "Order_save db1 (order\<lparr>status := ''shipped''\<rparr>) = (Inr order1, db2)"
    and d': "db' = OrderStatusHistory_create db2 (order_id order1) ''shipped''"
    by (auto split: prod.splits sum.splits)
  from Order_save_Inr [OF os] Order_get_id [OF o] os d' p ns s o show ?thesis by auto
qed

text \<open>What \<open>confirm_payment\<close> does on the paths where nothing raises: a 400 answer and an
  unchanged store for a payment that is already successful; otherwise, given a valid
  customer id, no stored transaction identifier and an unused draw, all three writes.\<close>

lemma confirm_payment_effect:
  assumes "Payment_get db oid = Some payment"
  shows "(payment_status payment = ''success'' \<longrightarrow>
            PaymentViewSet_confirm_payment rnd now db oid =
              (Inr (400, ''message'', ''Payment already marked as successful''), db))
       \<and> (payment_status payment \<noteq> ''success'' \<and> unassigned (transaction_id payment)
            \<and> Order_get db oid = Some order
            \<and> count_list (customers db) (customer_id order) \<noteq> 0
            \<and> \<not> list_ex (\<lambda>p. transaction_id p =
                   Some (take 12 (str_nat (unat (uuid4_int (rnd k)))))) (payments db)
          \<longrightarrow> (\<exists>db' tid payment'.
                 PaymentViewSet_confirm_payment rnd now db oid =
                   (Inr (200, ''message'', ''Payment confirmed successfully''), db')
               \<and> Payment_get db' oid = Some payment'
               \<and> payment_status payment' = ''success''
               \<and> transaction_id payment' = Some tid \<and> length tid = 12 \<and> list_all is_digit tid
               \<and> \<not> list_ex (\<lambda>p. transaction_id p = Some tid) (payments db)
               \<and> amount_paid payment' = Some (total_amount order)
               \<and> Order_get db' oid = Some (order\<lparr>status := ''shipped''\<rparr>)
               \<and> status_history db' = status_history db @
                    [\<lparr>history_order_id = oid, history_status = ''shipped''\<rparr>]))"
proof (intro conjI impI)
  assume "payment_status payment = ''success''"
  with assms show "PaymentViewSet_confirm_payment rnd now db oid =
              (Inr (400, ''message'', ''Payment already marked as successful''), db)"
    by (rule confirm_payment_already)
next
  assume h: "payment_status payment \<noteq> ''success'' \<and> unassigned (transaction_id payment)
            \<and> Order_get db oid = Some order
            \<and> count_list (customers db) (customer_id order) \<noteq> 0
            \<and> \<not> list_ex (\<lambda>p. transaction_id p =
                   Some (take 12 (str_nat (unat (uuid4_int (rnd k)))))) (payments db)"
  then have ns: "payment_status payment \<noteq> ''success''"
    and un: "unassigned (transaction_id payment)"
    and o: "Order_get db oid = Some order"
    and valid: "count_list (customers db) (customer_id order) \<noteq> 0"
    and free: "\<not> list_ex (\<lambda>p. transaction_id p =
                   Some (take 12 (str_nat (unat (uuid4_int (rnd (0 + k))))))) (payments db)"
    by simp_all
  have pid: "payment_order_id payment = oid" by (rule Payment_get_id [OF assms])
  have oid: "order_id order = oid" by (rule Order_get_id [OF o])
  from Payment_generate_transaction_id_terminates [where i = 0 and k = k and rnd = rnd and db = db] free obtain tid where
    gen: "Payment_generate_transaction_id rnd db 0 = Some tid" by blast
  define payment' where "payment' = payment\<lparr>payment_status := ''success'',
      transaction_id := Some tid, payment_date := Some now,
      amount_paid := Some (total_amount order)\<rparr>"
  define db1 where "db1 = db\<lparr>payments := upsert payment_id payment' (payments db)\<rparr>"
  have s: "Payment_save rnd now db (payment\<lparr>payment_status := ''success''\<rparr>) = (Inr payment', db1)"
    using un gen o pid by (simp add: Payment_save_def Let_def payment'_def db1_def)
  define db2 where "db2 = db1\<lparr>orders := upsert order_id (order\<lparr>status := ''shipped''\<rparr>) (orders db1)\<rparr>"
  have os: "Order_save db1 (order\<lparr>status := ''shipped''\<rparr>) = (Inr (order\<lparr>status := ''shipped''\<rparr>), db2)"
    using valid by (simp add: Order_save_def db1_def db2_def)
  define db' where "db' = OrderStatusHistory_create db2 oid ''shipped''"
  from confirm_payment_unfold [OF assms ns s o] os oid
  have g1: "Payment_get db1 oid = Some payment'"
    and r: "PaymentViewSet_confirm_payment rnd now db oid =
                   (Inr (200, ''message'', ''Payment confirmed successfully''), db')"
    by (simp_all add: db'_def)
  have pg: "Payment_get db' oid = Some payment'"
    using g1 by (simp add: db'_def db2_def OrderStatusHistory_create_def Payment_get_def)
  have og: "Order_get db' oid = Some (order\<lparr>status := ''shipped''\<rparr>)"
    using Order_get_after_save [where db = db1 and self = "order\<lparr>status := ''shipped''\<rparr>"] oid
    by (simp add: db'_def db2_def OrderStatusHistory_create_def Order_get_def)
  have hist: "status_history db' = status_history db @
                    [\<lparr>history_order_id = oid, history_status = ''shipped''\<rparr>]"
    by (simp add: db'_def db2_def db1_def OrderStatusHistory_create_def)
  from Payment_generate_transaction_id_returned [OF gen]
  have shape: "length tid = 12 \<and> list_all is_digit tid
     \<and> \<not> list_ex (\<lambda>p. transaction_id p = Some tid) (payments db)" .
  have fields: "payment_status payment' = ''success'' \<and> transaction_id payment' = Some tid
     \<and> amount_paid payment' = Some (total_amount order)"
    by (simp add: payment'_def)
  from r pg og hist shape fields
  show "\<exists>db' tid payment'.
                 PaymentViewSet_confirm_payment rnd now db oid =
                   (Inr (200, ''message'', ''Payment confirmed successfully''), db')
               \<and> Payment_get db' oid = Some payment'
               \<and> payment_status payment' = ''success''
               \<and> transaction_id payment' = Some tid \<and> length tid = 12 \<and> list_all is_digit tid
               \<and> \<not> list_ex (\<lambda>p. transaction_id p = Some tid) (payments db)
               \<and> amount_paid payment' = Some (total_amount order)
               \<and> Order_get db' oid = Some (order\<lparr>status := ''shipped''\<rparr>)
               \<and> status_history db' = status_history db @
                    [\<lparr>history_order_id = oid, history_status = ''shipped''\<rparr>]"
    by blast
qed

lemma ex_confirm:
  "PaymentViewSet_confirm_payment (\<lambda>i. 0) 5 ex_db_added ''1000000'' =
     (Inr (200, ''message'', ''Payment confirmed successfully''), ex_db_paid)"
proof -
  have p: "Payment_get ex_db_added ''1000000'' = Some ex_payment"
    by (simp add: ex_defs Payment_get_def)
  have ns: "payment_status ex_payment \<noteq> ''success''" by (simp add: ex_defs)
  have o: "Order_get ex_db_added ''1000000'' = Some (ex_order\<lparr>total_amount := 750\<rparr>)"
    by (simp add: ex_defs Order_get_def)
  from confirm_payment_unfold [OF p ns ex_save_success o]
  show ?thesis by (simp add: Order_save_def OrderStatusHistory_create_def upsert_def ex_defs)
qed

lemma ex_confirm_nocust:
  "PaymentViewSet_confirm_payment (\<lambda>i. 0) 5 ex_db_nocust ''1000000'' =
     (Inl (ValueError ''Invalid customer ID''), ex_db_nocust\<lparr>payments := [ex_payment_paid]\<rparr>)"
proof -
  have p: "Payment_get ex_db_nocust ''1000000'' = Some ex_payment"
    by (simp add: ex_defs Payment_get_def)
  have ns: "payment_status ex_payment \<noteq> ''success''" by (simp add: ex_defs)
  have o: "Order_get ex_db_nocust ''1000000'' = Some (ex_order\<lparr>total_amount := 750\<rparr>)"
    by (simp add: ex_defs Order_get_def)
  have g: "Payment_generate_transaction_id (\<lambda>i. 0) ex_db_nocust 0 = Some ''302240678275''"
    by (subst Payment_generate_transaction_id.simps)
       (simp add: Let_def ex_defs uuid4_int_def str_nat.simps digit_chars_def)
  have s: "Payment_save (\<lambda>i. 0) 5 ex_db_nocust (ex_payment\<lparr>payment_status := ''success''\<rparr>) =
     (Inr ex_payment_paid, ex_db_nocust\<lparr>payments := [ex_payment_paid]\<rparr>)"
    unfolding Payment_save_def using o g
    by (simp add: Let_def unassigned_def ex_payment_def) (simp add: ex_defs upsert_def)
  from confirm_payment_unfold [OF p ns s o]
  show ?thesis by (simp add: Order_save_def ex_defs)
qed

text \<open>
  C5. The claim asks for the three writes of \<open>confirm_payment\<close> (payment to
  \<open>success\<close>, order to \<open>shipped\<close>, one history row) as one atomic unit. The view
  opens no \<open>transaction.atomic()\<close>, unlike the create and destroy views. At a store whose
  order has a pending payment and a customer id that is no longer in the customer table,
  the call raises \<open>ValueError("Invalid customer ID")\<close> from \<open>order.save()\<close> after the
  payment has been written: the store left behind holds the payment as \<open>success\<close> with
  its transaction identifier and amount, the order still \<open>pending\<close> and the history as
  it was, and it is not the store the call started from.
\<close>

theorem confirm_payment_not_atomic:
  "Payment_get ex_db_nocust ''1000000'' = Some ex_payment
   \<and> payment_status ex_payment = ''pending''
   \<and> PaymentViewSet_confirm_payment (\<lambda>i. 0) 5 ex_db_nocust ''1000000'' =
        (Inl (ValueError ''Invalid customer ID''), ex_db_nocust\<lparr>payments := [ex_payment_paid]\<rparr>)
   \<and> map payment_status (payments (ex_db_nocust\<lparr>payments := [ex_payment_paid]\<rparr>)) = [''success'']
   \<and> map transaction_id (payments (ex_db_nocust\<lparr>payments := [ex_payment_paid]\<rparr>))
        = [Some ''302240678275'']
   \<and> map status (orders (ex_db_nocust\<lparr>payments := [ex_payment_paid]\<rparr>)) = [''pending'']
   \<and> status_history (ex_db_nocust\<lparr>payments := [ex_payment_paid]\<rparr>) = status_history ex_db_nocust
   \<and> payments (ex_db_nocust\<lparr>payments := [ex_payment_paid]\<rparr>) \<noteq> payments ex_db_nocust"
  using ex_confirm_nocust by (simp add: ex_defs Payment_get_def)

lemma confirm_payment_effect_example:
  "Payment_get ex_db_paid ''1000000'' = Some ex_payment_paid
   \<and> payment_status ex_payment_paid = ''success''
   \<and> PaymentViewSet_confirm_payment (\<lambda>i. 0) 6 ex_db_paid ''1000000'' =
        (Inr (400, ''message'', ''Payment already marked as successful''), ex_db_paid)
   \<and> Payment_get ex_db_added ''1000000'' = Some ex_payment
   \<and> payment_status ex_payment \<noteq> ''success'' \<and> unassigned (transaction_id ex_payment)
   \<and> Order_get ex_db_added ''1000000'' = Some (ex_order\<lparr>total_amount := 750\<rparr>)
   \<and> count_list (customers ex_db_added) (customer_id (ex_order\<lparr>total_amount := 750\<rparr>)) \<noteq> 0
   \<and> \<not> list_ex (\<lambda>p. transaction_id p =
          Some (take 12 (str_nat (unat (uuid4_int ((\<lambda>i. 0) (0::nat))))))) (payments ex_db_added)
   \<and> (\<exists>db' tid payment'.
         PaymentViewSet_confirm_payment (\<lambda>i. 0) 5 ex_db_added ''1000000'' =
           (Inr (200, ''message'', ''Payment confirmed successfully''), db')
       \<and> Payment_get db' ''1000000'' = Some payment'
       \<and> payment_status payment' = ''success''
       \<and> transaction_id payment' = Some tid \<and> length tid = 12 \<and> list_all is_digit tid
       \<and> \<not> list_ex (\<lambda>p. transaction_id p = Some tid) (payments ex_db_added)
       \<and> amount_paid payment' = Some (total_amount (ex_order\<lparr>total_amount := 750\<rparr>))
       \<and> Order_get db' ''1000000'' = Some (ex_order\<lparr>total_amount := 750, status := ''shipped''\<rparr>)
       \<and> status_history db' = status_history ex_db_added @
            [\<lparr>history_order_id = ''1000000'', history_status = ''shipped''\<rparr>])
   \<and> PaymentViewSet_confirm_payment (\<lambda>i. 0) 5 ex_db_added ''1000000'' =
        (Inr (200, ''message'', ''Payment confirmed successfully''), ex_db_paid)
   \<and> transaction_id ex_payment_paid = Some ''302240678275''"
proof -
  have p2: "Payment_get ex_db_paid ''1000000'' = Some ex_payment_paid"
    by (simp add: ex_defs Payment_get_def)
  have s2: "payment_status ex_payment_paid = ''success''" by (simp add: ex_defs)
  have p1: "Payment_get ex_db_added ''1000000'' = Some ex_payment"
    by (simp add: ex_defs Payment_get_def)
  have h1: "payment_status ex_payment \<noteq> ''success'' \<and> unassigned (transaction_id ex_payment)
     \<and> Order_get ex_db_added ''1000000'' = Some (ex_order\<lparr>total_amount := 750\<rparr>)
     \<and> count_list (customers ex_db_added) (customer_id (ex_order\<lparr>total_amount := 750\<rparr>)) \<noteq> 0
     \<and> \<not> list_ex (\<lambda>p. transaction_id p =
          Some (take 12 (str_nat (unat (uuid4_int ((\<lambda>i. 0) (0::nat))))))) (payments ex_db_added)"
    by (simp add: ex_defs unassigned_def Order_get_def)
  have t: "transaction_id ex_payment_paid = Some ''302240678275''" by (simp add: ex_defs)
  from confirm_payment_effect [OF p2, where rnd = "\<lambda>i. 0" and now = 6]
       confirm_payment_effect [OF p1, where rnd = "\<lambda>i. 0" and now = 5 and k = 0
         and order = "ex_order\<lparr>total_amount := 750\<rparr>"]
       p2 s2 p1 h1 t ex_confirm
  show ?thesis by simp
qed


lemma ex_destroy_paid:
  "OrderItemViewSet_destroy ex_db_paid None 1 =
     (Inr (204, ''message'', ''Order item deleted''), ex_db_paid_removed)"
  by (simp add: ex_defs ex_db_paid_removed_def model_defs Let_def)

text \<open>
  C7. A payment saved with status \<open>success\<close> is stored with \<open>amount_paid\<close> equal to
  the \<open>total_amount\<close> of its order in the store at that moment, through
  \<open>Payment.save\<close> and through \<open>confirm_payment\<close> alike; and no later item add
  (\<open>OrderItem.save\<close>, the view's \<open>create\<close>) or item removal (the view's \<open>destroy\<close>),
  whatever its outcome, changes the payment table, so \<open>amount_paid\<close> stays as it was.
\<close>

theorem amount_paid_snapshot:
  "(Payment_save rnd now db self = (Inr self', db') \<and> payment_status self = ''success'' \<longrightarrow>
       (\<exists>order. Order_get db (payment_order_id self) = Some order
           \<and> amount_paid self' = Some (total_amount order))
       \<and> find (\<lambda>p. payment_id p = payment_id self) (payments db') = Some self')
   \<and> (PaymentViewSet_confirm_payment rnd now db oid = (Inr (200, msg), db'') \<longrightarrow>
       (\<exists>order payment'. Order_get db oid = Some order \<and> Payment_get db'' oid = Some payment'
           \<and> payment_status payment' = ''success''
           \<and> amount_paid payment' = Some (total_amount order)))
   \<and> payments (snd (OrderItem_save db1 item order1)) = payments db1
   \<and> payments (snd (OrderItemViewSet_create db1 oid1 data)) = payments db1
   \<and> payments (snd (OrderItemViewSet_destroy db1 kw pk)) = payments db1"
proof (intro conjI impI)
  assume a: "Payment_save rnd now db self = (Inr self', db') \<and> payment_status self = ''success''"
  then have s: "Payment_save rnd now db self = (Inr self', db')"
    and st: "payment_status self = ''success''" by simp_all
  from Payment_save_success_Inr [OF s st]
  show "\<exists>order. Order_get db (payment_order_id self) = Some order
           \<and> amount_paid self' = Some (total_amount order)" by auto
  from Payment_save_stored [OF s]
  show "find (\<lambda>p. payment_id p = payment_id self) (payments db') = Some self'" by blast
next
  assume c: "PaymentViewSet_confirm_payment rnd now db oid = (Inr (200, msg), db'')"
  from confirm_payment_Inr_200 [OF c] obtain payment payment1 db1 and order :: Order where
    p: "Payment_get db oid = Some payment" and ns: "payment_status payment \<noteq> ''success''"
    and s: "Payment_save rnd now db (payment\<lparr>payment_status := ''success''\<rparr>) = (Inr payment1, db1)"
    and o: "Order_get db oid = Some order"
    and d: "db'' = OrderStatusHistory_create
                (db1\<lparr>orders := upsert order_id (order\<lparr>status := ''shipped''\<rparr>) (orders db1)\<rparr>) oid ''shipped''"
    by blast
  from confirm_payment_unfold [OF p ns s o] have g: "Payment_get db1 oid = Some payment1" by simp
  then have g': "Payment_get db'' oid = Some payment1"
    by (simp add: d OrderStatusHistory_create_def Payment_get_def)
  have pid: "payment_order_id payment = oid" by (rule Payment_get_id [OF p])
  from Payment_save_success_Inr [OF s] o pid
  have "amount_paid payment1 = Some (total_amount order)" by auto
  moreover from Payment_save_stored [OF s] have "payment_status payment1 = ''success''" by simp
  ultimately show "\<exists>order payment'. Order_get db oid = Some order \<and> Payment_get db'' oid = Some payment'
           \<and> payment_status payment' = ''success''
           \<and> amount_paid payment' = Some (total_amount order)"
    using o g' by blast
next
  show "payments (snd (OrderItem_save db1 item order1)) = payments db1"
    by (rule OrderItem_save_payments)
  show "payments (snd (OrderItemViewSet_create db1 oid1 data)) = payments db1"
    by (rule OrderItemViewSet_create_payments)
  show "payments (snd (OrderItemViewSet_destroy db1 kw pk)) = payments db1"
    by (simp add: OrderItemViewSet_destroy_frame)
qed

theorem amount_paid_snapshot_witness:
  "Payment_save (\<lambda>i. 0) 5 ex_db_added (ex_payment\<lparr>payment_status := ''success''\<rparr>) =
     (Inr ex_payment_paid, ex_db_added\<lparr>payments := [ex_payment_paid]\<rparr>)
   \<and> payment_status (ex_payment\<lparr>payment_status := ''success''\<rparr>) = ''success''
   \<and> PaymentViewSet_confirm_payment (\<lambda>i. 0) 5 ex_db_added ''1000000'' =
        (Inr (200, ''message'', ''Payment confirmed successfully''), ex_db_paid)
   \<and> (\<exists>order payment'. Order_get ex_db_added ''1000000'' = Some order
        \<and> Payment_get ex_db_paid ''1000000'' = Some payment'
        \<and> payment_status payment' = ''success''
        \<and> amount_paid payment' = Some (total_amount order))
   \<and> Order_get ex_db_added ''1000000'' = Some (ex_order\<lparr>total_amount := 750\<rparr>)
   \<and> amount_paid ex_payment_paid = Some 750
   \<and> OrderItemViewSet_destroy ex_db_paid None 1 =
        (Inr (204, ''message'', ''Order item deleted''), ex_db_paid_removed)
   \<and> payments (snd (OrderItemViewSet_destroy ex_db_paid None 1)) = payments ex_db_paid
   \<and> Order_get ex_db_paid_removed ''1000000'' = Some (ex_order\<lparr>status := ''shipped''\<rparr>)
   \<and> total_amount (ex_order\<lparr>status := ''shipped''\<rparr>) = 0
   \<and> Payment_get ex_db_paid_removed ''1000000'' = Some ex_payment_paid"
proof -
  note T = amount_paid_snapshot [where rnd = "\<lambda>i. 0" and now = 5 and db = ex_db_added
      and self = "ex_payment\<lparr>payment_status := ''success''\<rparr>" and self' = ex_payment_paid
      and db' = "ex_db_added\<lparr>payments := [ex_payment_paid]\<rparr>" and oid = "''1000000''"
      and msg = "(''message'', ''Payment confirmed successfully'')" and db'' = ex_db_paid
      and ?db1.0 = ex_db_paid and kw = None and pk = 1]
  have a: "\<exists>order payment'. Order_get ex_db_added ''1000000'' = Some order
        \<and> Payment_get ex_db_paid ''1000000'' = Some payment'
        \<and> payment_status payment' = ''success''
        \<and> amount_paid payment' = Some (total_amount order)"
    using T ex_confirm by blast
  have b: "payments (snd (OrderItemViewSet_destroy ex_db_paid None 1)) = payments ex_db_paid"
    using T by blast
  have c: "Order_get ex_db_added ''1000000'' = Some (ex_order\<lparr>total_amount := 750\<rparr>)
     \<and> amount_paid ex_payment_paid = Some 750
     \<and> Order_get ex_db_paid_removed ''1000000'' = Some (ex_order\<lparr>status := ''shipped''\<rparr>)
     \<and> total_amount (ex_order\<lparr>status := ''shipped''\<rparr>) = 0
     \<and> Payment_get ex_db_paid_removed ''1000000'' = Some ex_payment_paid"
    by (simp add: ex_defs ex_db_paid_removed_def Order_get_def Payment_get_def)
  from a b c ex_save_success ex_confirm ex_destroy_paid show ?thesis by simp
qed

end
